theory Spec2Isabelle
  imports Complex_Main
begin

section \<open>Values exchanged with the store\<close>

text \<open>
  The program (\<^verbatim>\<open>index.ts\<close>) talks to a DynamoDB endpoint through the SDK client. The
  shapes below are the parts of the SDK's request and response types that the program
  reads or writes. A field the SDK types as \<^verbatim>\<open>T | undefined\<close> is an \<open>option\<close>.
  A number attribute travels as a decimal string; it is represented by the number it
  denotes.
\<close>

datatype AttributeValue =
    S string
  | N rat
  | B string
  | BOOL bool
  | NULL
  | SS "string list"
  | NS "rat list"
  | BS "string list"
  | L "AttributeValue list"
  | M "(string \<times> AttributeValue) list"

text \<open>An item as the store returns it: attribute name to value.\<close>

type_synonym Item = "string \<rightharpoonup> AttributeValue"

text \<open>
  What reading a property of a JavaScript object can give in this program: \<^verbatim>\<open>undefined\<close>,
  an attribute value, or something found on \<^verbatim>\<open>Object.prototype\<close> (the prototype object
  itself, which is what the \<^verbatim>\<open>__proto__\<close> getter returns, or one of its built-in
  functions, by name).
\<close>

datatype jsvalue =
    Undefined
  | Attribute AttributeValue
  | ObjectPrototype
  | Builtin string

text \<open>
  \<^verbatim>\<open>Record<string, AttributeValue>\<close> as the scanner builds it: an object with its own
  properties (a property may be present with the value \<^verbatim>\<open>undefined\<close>) and its prototype.
\<close>

record Record =
  own :: "string \<rightharpoonup> jsvalue"
  prototype :: jsvalue

record KeySchema =
  hash :: "string option"
  range :: "string option"

record MetadataBearer =
  httpStatusCode :: "int option"

record AttributeNamed =
  AttributeName :: "string option"

record KeySchemaElement = AttributeNamed +
  KeyType :: "string option"

record AttributeDefinition = AttributeNamed +
  AttributeType :: "string option"

record TableDescription =
  KeySchema :: "KeySchemaElement list option"
  AttributeDefinitions :: "AttributeDefinition list option"

record DescribeTableCommandOutput = MetadataBearer +
  Table :: "TableDescription option"

record ScanCommandOutput = MetadataBearer +
  Items :: "Item list option"

type_synonym DeleteItemCommandOutput = MetadataBearer

record Condition =
  ComparisonOperator :: string
  AttributeValueList :: "AttributeValue list"

record TableNamed =
  TableName :: string

type_synonym DescribeTableCommandInput = TableNamed

record ScanCommandInput = TableNamed +
  ScanFilter :: "(string \<times> Condition) list"

record DeleteItemCommandInput = TableNamed +
  Key :: Record

datatype request =
    DescribeTableCommand DescribeTableCommandInput
  | ScanCommand ScanCommandInput
  | DeleteItemCommand DeleteItemCommandInput

text \<open>\<^verbatim>\<open>KeyType.HASH\<close> and \<^verbatim>\<open>KeyType.RANGE\<close> of the SDK.\<close>

definition KeyType_HASH :: string where
  "KeyType_HASH = ''HASH''"

definition KeyType_RANGE :: string where
  "KeyType_RANGE = ''RANGE''"

section \<open>Messages, errors and observable events\<close>

text \<open>
  A template literal is a list of chunks: literal text, or \<^verbatim>\<open>JSON.stringify\<close> of a value
  (kept as the value).
\<close>

datatype chunk =
    Str string
  | Json_describe DescribeTableCommandOutput
  | Json_scan ScanCommandOutput
  | Json_record Record

type_synonym message = "chunk list"

abbreviation (input) quote :: string where
  "quote \<equiv> [CHR 0x27]"

text \<open>
  What can be thrown: a plain \<^verbatim>\<open>Error\<close> of the program, the SDK's
  \<^verbatim>\<open>ResourceNotFoundException\<close>, or any other exception of the client (by name).
\<close>

datatype error =
    Error message
  | ResourceNotFoundException
  | ServiceException string

datatype event =
    Sent request
  | Log message
  | Warn message
  | Sleep nat

text \<open>
  An awaited call returns, throws, or never settles (\<open>Pending\<close>: the store has not
  answered within the observed run).
\<close>

datatype 'a outcome =
    Returned 'a
  | Threw error
  | Pending

section \<open>The world the process runs in\<close>

text \<open>
  \<open>env\<close> is \<^verbatim>\<open>process.env\<close>; \<open>clock\<close> is what \<^verbatim>\<open>Date.now()\<close> returns (milliseconds).
  The store is external: for each kind of command the world holds the store's upcoming
  reactions, one per request, each a function of the request it receives. \<open>trace\<close>
  records what the process has done so far, oldest first.
\<close>

record world =
  env :: "string \<rightharpoonup> string"
  clock :: int
  describes :: "(DescribeTableCommandInput \<Rightarrow> error + DescribeTableCommandOutput) list"
  scans :: "(ScanCommandInput \<Rightarrow> error + ScanCommandOutput) list"
  deletes :: "(DeleteItemCommandInput \<Rightarrow> error + DeleteItemCommandOutput) list"
  trace :: "event list"

definition console_log :: "message \<Rightarrow> world \<Rightarrow> world" where
  "console_log m w = w\<lparr>trace := trace w @ [Log m]\<rparr>"

definition console_warn :: "message \<Rightarrow> world \<Rightarrow> world" where
  "console_warn m w = w\<lparr>trace := trace w @ [Warn m]\<rparr>"

text \<open>
  \<^verbatim>\<open>await sleep(seconds)\<close>: a timer of \<open>seconds * 1000\<close> milliseconds. The clock moves on
  by that much; how the clock moves matters to no statement below, only its reading when a
  scan is built.
\<close>

definition sleep :: "nat \<Rightarrow> world \<Rightarrow> world" where
  "sleep seconds w =
     w\<lparr>clock := clock w + int seconds * 1000, trace := trace w @ [Sleep seconds]\<rparr>"

definition settle :: "(error + 'a) \<Rightarrow> 'a outcome" where
  "settle r = (case r of Inl e \<Rightarrow> Threw e | Inr v \<Rightarrow> Returned v)"

text \<open>\<^verbatim>\<open>await client.send(command)\<close>, one definition per command type.\<close>

definition send_DescribeTable ::
  "DescribeTableCommandInput \<Rightarrow> world \<Rightarrow> DescribeTableCommandOutput outcome \<times> world" where
  "send_DescribeTable input w =
     (case describes w of
        [] \<Rightarrow> (Pending, w\<lparr>trace := trace w @ [Sent (DescribeTableCommand input)]\<rparr>)
      | r # rs \<Rightarrow>
          (settle (r input), w\<lparr>describes := rs, trace := trace w @ [Sent (DescribeTableCommand input)]\<rparr>))"

definition send_Scan ::
  "ScanCommandInput \<Rightarrow> world \<Rightarrow> ScanCommandOutput outcome \<times> world" where
  "send_Scan input w =
     (case scans w of
        [] \<Rightarrow> (Pending, w\<lparr>trace := trace w @ [Sent (ScanCommand input)]\<rparr>)
      | r # rs \<Rightarrow>
          (settle (r input), w\<lparr>scans := rs, trace := trace w @ [Sent (ScanCommand input)]\<rparr>))"

definition send_DeleteItem ::
  "DeleteItemCommandInput \<Rightarrow> world \<Rightarrow> DeleteItemCommandOutput outcome \<times> world" where
  "send_DeleteItem input w =
     (case deletes w of
        [] \<Rightarrow> (Pending, w\<lparr>trace := trace w @ [Sent (DeleteItemCommand input)]\<rparr>)
      | r # rs \<Rightarrow>
          (settle (r input), w\<lparr>deletes := rs, trace := trace w @ [Sent (DeleteItemCommand input)]\<rparr>))"

section \<open>The program\<close>

text \<open>
  \<^verbatim>\<open>getRequiredEnvironmentVariable\<close>: \<^verbatim>\<open>!value\<close> holds for an unset variable and for the
  empty string.
\<close>

definition getRequiredEnvironmentVariable :: "(string \<rightharpoonup> string) \<Rightarrow> string \<Rightarrow> error + string" where
  "getRequiredEnvironmentVariable e name =
     (case e name of
        None \<Rightarrow>
          Inl (Error [Str (''You must configure the '' @ quote @ name @ quote @ '' environment variable!'')])
      | Some v \<Rightarrow>
          if v = [] then
            Inl (Error [Str (''You must configure the '' @ quote @ name @ quote @ '' environment variable!'')])
          else Inr v)"

text \<open>
  The module-level client: the endpoint goes through the required-variable check, the
  region is read from \<^verbatim>\<open>process.env.AWS_REGION\<close> as it is.
\<close>

record DynamoDBClientConfig =
  endpoint :: string
  region :: "string option"

definition client :: "(string \<rightharpoonup> string) \<Rightarrow> error + DynamoDBClientConfig" where
  "client e =
     (case getRequiredEnvironmentVariable e ''AWS_ENDPOINT'' of
        Inl err \<Rightarrow> Inl err
      | Inr ep \<Rightarrow> Inr \<lparr>endpoint = ep, region = e ''AWS_REGION''\<rparr>)"

text \<open>
  A computed property name: \<^verbatim>\<open>[keySchema.hash]\<close> with \<^verbatim>\<open>undefined\<close> is the property
  \<^verbatim>\<open>"undefined"\<close>.
\<close>

definition propertyKey :: "string option \<Rightarrow> string" where
  "propertyKey k = (case k of None \<Rightarrow> ''undefined'' | Some s \<Rightarrow> s)"

text \<open>
  The data properties of \<^verbatim>\<open>Object.prototype\<close> (all of them functions); its one accessor
  is \<^verbatim>\<open>__proto__\<close>.
\<close>

definition objectPrototypeMethods :: "string list" where
  "objectPrototypeMethods =
     [''constructor'', ''__defineGetter__'', ''__defineSetter__'', ''hasOwnProperty'',
      ''__lookupGetter__'', ''__lookupSetter__'', ''isPrototypeOf'', ''propertyIsEnumerable'',
      ''toString'', ''valueOf'', ''toLocaleString'']"

text \<open>
  \<^verbatim>\<open>i[k]\<close> for an item \<^verbatim>\<open>i\<close>, an ordinary object: its own property if it has one, else
  what the prototype chain gives, else \<^verbatim>\<open>undefined\<close>.
\<close>

definition getProperty :: "Item \<Rightarrow> string \<Rightarrow> jsvalue" where
  "getProperty i k =
     (case i k of
        Some v \<Rightarrow> Attribute v
      | None \<Rightarrow>
          if k = ''__proto__'' then ObjectPrototype
          else if k \<in> set objectPrototypeMethods then Builtin k
          else Undefined)"

text \<open>
  \<^verbatim>\<open>record[k] = v\<close> for a record whose prototype is \<^verbatim>\<open>Object.prototype\<close>. An own
  property is overwritten. Otherwise the name \<^verbatim>\<open>__proto__\<close> reaches the setter of
  \<^verbatim>\<open>Object.prototype\<close>, which replaces the prototype when the value is an object and
  creates no property; any other name becomes a new own property.
\<close>

definition assign :: "Record \<Rightarrow> string \<Rightarrow> jsvalue \<Rightarrow> Record" where
  "assign record k v =
     (if k = ''__proto__'' \<and> own record k = None then
        (if v = Undefined then record else record\<lparr>prototype := v\<rparr>)
      else record\<lparr>own := (own record)(k \<mapsto> v)\<rparr>)"

text \<open>
  The callback of \<^verbatim>\<open>response.Items.map\<close> in \<^verbatim>\<open>getExpiredItemKeys\<close>. The object literal
  with a computed name defines an own property, whatever the name;
  \<^verbatim>\<open>if (keySchema.range)\<close> holds for a defined, non-empty string.
\<close>

definition toKeyRecord :: "KeySchema \<Rightarrow> Item \<Rightarrow> Record" where
  "toKeyRecord keySchema i =
     (let record =
            \<lparr>own = Map.empty(propertyKey (hash keySchema) \<mapsto> getProperty i (propertyKey (hash keySchema))),
             prototype = ObjectPrototype\<rparr>
      in
      case range keySchema of
        None \<Rightarrow> record
      | Some r \<Rightarrow> if r = [] then record else assign record r (getProperty i r))"

text \<open>
  The command \<^verbatim>\<open>getExpiredItemKeys\<close> builds, with
  \<^verbatim>\<open>Math.floor(Date.now() / 1000)\<close> as the filter's operand.
\<close>

definition scanInput :: "string \<Rightarrow> string \<Rightarrow> int \<Rightarrow> ScanCommandInput" where
  "scanInput tableName ttlAttribute now_ms =
     \<lparr>TableName = tableName,
      ScanFilter =
        [(ttlAttribute,
          \<lparr>ComparisonOperator = ''LT'',
           AttributeValueList = [N (of_int \<lfloor>(of_int now_ms :: rat) / 1000\<rfloor>)]\<rparr>)]\<rparr>"

definition getExpiredItemKeys :: "KeySchema \<Rightarrow> world \<Rightarrow> Record list option outcome \<times> world" where
  "getExpiredItemKeys keySchema w =
     (case getRequiredEnvironmentVariable (env w) ''TABLE_NAME'' of
        Inl e \<Rightarrow> (Threw e, w)
      | Inr tableName \<Rightarrow>
     (case getRequiredEnvironmentVariable (env w) ''TTL_ATTRIBUTE'' of
        Inl e \<Rightarrow> (Threw e, w)
      | Inr ttlAttribute \<Rightarrow>
     (case send_Scan (scanInput tableName ttlAttribute (clock w)) w of
        (Pending, w') \<Rightarrow> (Pending, w')
      | (Threw e, w') \<Rightarrow> (Threw e, w')
      | (Returned response, w') \<Rightarrow>
          if httpStatusCode response \<noteq> Some 200 then
            (Threw (Error [Str (''Failed to scan DynamoDB items '' @ quote), Json_scan response, Str quote]), w')
          else
            (case Items response of
               None \<Rightarrow> (Returned None, w')
             | Some items \<Rightarrow> (Returned (Some (map (toKeyRecord keySchema) items)), w')))))"

text \<open>
  \<^verbatim>\<open>String(x)\<close> inside a template literal, for a value that may be \<^verbatim>\<open>undefined\<close>.
\<close>

definition interpolate :: "string option \<Rightarrow> string" where
  "interpolate x = (case x of None \<Rightarrow> ''undefined'' | Some s \<Rightarrow> s)"

text \<open>
  The \<^verbatim>\<open>for ... of response.Table.KeySchema\<close> loop of \<^verbatim>\<open>getTableKeySchema\<close>. The
  attribute definition is the first one whose name is strictly equal to the entry's
  (\<^verbatim>\<open>undefined === undefined\<close> included); \<^verbatim>\<open>AttributeDefinitions?.find\<close> is
  \<^verbatim>\<open>undefined\<close> when the table has no definitions.
\<close>

fun keySchemaLoop ::
  "AttributeDefinition list option \<Rightarrow> KeySchemaElement list \<Rightarrow> KeySchema \<Rightarrow> world \<Rightarrow> KeySchema \<times> world" where
  "keySchemaLoop defs [] keySchema w = (keySchema, w)"
| "keySchemaLoop defs (keySchemaItem # rest) keySchema w =
     (let attributeDefinition =
            (case defs of
               None \<Rightarrow> None
             | Some ds \<Rightarrow> find (\<lambda>d. AttributeName d = AttributeName keySchemaItem) ds)
      in
      if attributeDefinition = None
         \<or> AttributeType (the attributeDefinition) = None
         \<or> AttributeType (the attributeDefinition) = Some [] then
        keySchemaLoop defs rest keySchema
          (console_warn
             [Str (''Could not find attribute definition or type for key '' @ quote
                   @ interpolate (AttributeName keySchemaItem) @ quote)] w)
      else if KeyType keySchemaItem = Some KeyType_HASH then
        keySchemaLoop defs rest (keySchema\<lparr>hash := AttributeName keySchemaItem\<rparr>) w
      else if KeyType keySchemaItem = Some KeyType_RANGE then
        keySchemaLoop defs rest (keySchema\<lparr>range := AttributeName keySchemaItem\<rparr>) w
      else
        keySchemaLoop defs rest keySchema
          (console_warn
             [Str (''Key '' @ quote @ ''[object Object]'' @ quote @ '' was not key type HASH or RANGE'')] w))"

definition getTableKeySchema :: "world \<Rightarrow> KeySchema outcome \<times> world" where
  "getTableKeySchema w =
     (case getRequiredEnvironmentVariable (env w) ''TABLE_NAME'' of
        Inl e \<Rightarrow> (Threw e, w)
      | Inr tableName \<Rightarrow>
     (case send_DescribeTable \<lparr>TableName = tableName\<rparr> w of
        (Pending, w') \<Rightarrow> (Pending, w')
      | (Threw e, w') \<Rightarrow> (Threw e, w')
      | (Returned response, w') \<Rightarrow>
          if httpStatusCode response \<noteq> Some 200 \<or> Table response = None then
            (Threw (Error [Str (''Failed to describe DynamoDB table '' @ quote),
                           Json_describe response, Str quote]), w')
          else
            (case KeySchema (the (Table response)) of
               None \<Rightarrow>
                 (Threw (Error [Str (''No key schema defined on DynamoDB table '' @ quote),
                                Json_describe response, Str quote]), w')
             | Some entries \<Rightarrow>
                 (case keySchemaLoop (AttributeDefinitions (the (Table response))) entries
                         \<lparr>hash = None, range = None\<rparr> w' of
                    (keySchema, w'') \<Rightarrow> (Returned keySchema, w'')))))"

fun deleteItems :: "Record list \<Rightarrow> world \<Rightarrow> unit outcome \<times> world" where
  "deleteItems [] w = (Returned (), w)"
| "deleteItems (key # keys) w =
     (let w1 = console_log
                 [Str (''Deleting DynamoDB item with key: '' @ quote), Json_record key, Str quote] w
      in
      case getRequiredEnvironmentVariable (env w1) ''TABLE_NAME'' of
        Inl e \<Rightarrow> (Threw e, w1)
      | Inr tableName \<Rightarrow>
     (case send_DeleteItem \<lparr>TableName = tableName, Key = key\<rparr> w1 of
        (Pending, w2) \<Rightarrow> (Pending, w2)
      | (Threw e, w2) \<Rightarrow> (Threw e, w2)
      | (Returned response, w2) \<Rightarrow>
          if httpStatusCode response \<noteq> Some 200 then
            (Threw (Error [Str (''Failed to delete DynamoDB item with key '' @ quote),
                           Json_record key, Str quote]), w2)
          else deleteItems keys w2))"

text \<open>
  The \<^verbatim>\<open>do ... while (!keySchema)\<close> loop of \<^verbatim>\<open>main\<close>. A returned key schema is an object,
  hence truthy, and ends the loop; only \<^verbatim>\<open>ResourceNotFoundException\<close> is caught and
  retried. The recursion ends because every retry consumes one reaction of the store.
\<close>

lemma getTableKeySchema_not_found:
  "getTableKeySchema w = (Threw ResourceNotFoundException, w') \<Longrightarrow>
     length (describes w') < length (describes w)"
  by (auto simp: getTableKeySchema_def getRequiredEnvironmentVariable_def send_DescribeTable_def Let_def settle_def
        split: sum.splits list.splits outcome.splits prod.splits if_splits option.splits)

function main_resolve :: "world \<Rightarrow> KeySchema outcome \<times> world" where
  "main_resolve w =
     (case getTableKeySchema w of
        (Returned keySchema, w') \<Rightarrow> (Returned keySchema, w')
      | (Pending, w') \<Rightarrow> (Pending, w')
      | (Threw err, w') \<Rightarrow>
          if err \<noteq> ResourceNotFoundException then (Threw err, w')
          else
            (case getRequiredEnvironmentVariable (env w') ''TABLE_NAME'' of
               Inl e \<Rightarrow> (Threw e, w')
             | Inr tableName \<Rightarrow>
                 main_resolve
                   (sleep 5
                      (console_warn
                         [Str (''Table '' @ quote @ tableName @ quote @ '' not found, trying again in ''
                               @ quote @ ''5'' @ quote @ '' seconds'')] w'))))"
  by pat_completeness auto
termination
  apply (relation "measure (\<lambda>w. length (describes w))")
   apply simp
  apply (simp add: sleep_def console_warn_def getTableKeySchema_not_found)
  done


text \<open>
  The \<^verbatim>\<open>while (true)\<close> loop of \<^verbatim>\<open>main\<close>. \<^verbatim>\<open>if (expiredItems)\<close> holds for every array,
  the empty one included. The loop never returns: it throws, or it is left waiting for
  the store once the observed reactions are used up.
\<close>

lemma getExpiredItemKeys_consumes:
  "getExpiredItemKeys keySchema w = (Returned x, w') \<Longrightarrow> length (scans w') < length (scans w)"
  by (auto simp: getExpiredItemKeys_def getRequiredEnvironmentVariable_def send_Scan_def Let_def
        split: sum.splits list.splits outcome.splits prod.splits if_splits option.splits)

lemma deleteItems_scans: "deleteItems keys w = (r, w') \<Longrightarrow> scans w' = scans w"
proof (induction keys arbitrary: w)
  case Nil
  then show ?case by simp
next
  case (Cons key keys)
  then show ?case
    by (auto simp: console_log_def send_DeleteItem_def Let_def
          split: sum.splits list.splits outcome.splits prod.splits if_splits)
qed

function main_loop :: "KeySchema \<Rightarrow> world \<Rightarrow> unit outcome \<times> world" where
  "main_loop keySchema w =
     (case getExpiredItemKeys keySchema
             (console_log [Str ''Scanning for new expired DynamoDB items...''] w) of
        (Pending, w1) \<Rightarrow> (Pending, w1)
      | (Threw e, w1) \<Rightarrow> (Threw e, w1)
      | (Returned expiredItems, w1) \<Rightarrow>
          (case (case expiredItems of
                   Some keys \<Rightarrow> deleteItems keys w1
                 | None \<Rightarrow> (Returned (), console_log [Str ''No expired items to delete''] w1)) of
             (Pending, w2) \<Rightarrow> (Pending, w2)
           | (Threw e, w2) \<Rightarrow> (Threw e, w2)
           | (Returned u, w2) \<Rightarrow>
               main_loop keySchema
                 (sleep 5 (console_log [Str ''Sleeping for 5 seconds...''] w2))))"
  by pat_completeness auto
termination
proof (relation "measure (\<lambda>(keySchema, w). length (scans w))")
  show "wf (measure (\<lambda>(keySchema, w). length (scans w)))"
    by simp
next
  fix keySchema :: KeySchema and w y ya :: world
    and x xa :: "unit outcome" and x1 :: "Record list option" and x1a :: unit
    and x' :: "Record list option outcome"
  assume scan: "(x', y) = getExpiredItemKeys keySchema
                  (console_log [Str ''Scanning for new expired DynamoDB items...''] w)"
    and x: "x' = Returned x1"
    and del: "(xa, ya) = (case x1 of
                   None \<Rightarrow> (Returned (), console_log [Str ''No expired items to delete''] y)
                 | Some keys \<Rightarrow> deleteItems keys y)"
  from scan x have "getExpiredItemKeys keySchema
      (console_log [Str ''Scanning for new expired DynamoDB items...''] w) = (Returned x1, y)"
    by simp
  then have "length (scans y)
      < length (scans (console_log [Str ''Scanning for new expired DynamoDB items...''] w))"
    by (rule getExpiredItemKeys_consumes)
  then have "length (scans y) < length (scans w)"
    by (simp add: console_log_def)
  moreover from del have "scans ya = scans y"
    by (cases x1) (auto simp: console_log_def dest: deleteItems_scans [OF sym])
  ultimately show "((keySchema, sleep 5 (console_log [Str ''Sleeping for 5 seconds...''] ya)), keySchema, w)
      \<in> measure (\<lambda>(keySchema, w). length (scans w))"
    by (simp add: sleep_def console_log_def)
qed

definition main :: "world \<Rightarrow> unit outcome \<times> world" where
  "main w =
     (case main_resolve w of
        (Returned keySchema, w') \<Rightarrow> main_loop keySchema w'
      | (Threw e, w') \<Rightarrow> (Threw e, w')
      | (Pending, w') \<Rightarrow> (Pending, w'))"

text \<open>The module: the client is built first, then \<^verbatim>\<open>main()\<close> is called.\<close>

definition program :: "world \<Rightarrow> unit outcome \<times> world" where
  "program w =
     (case client (env w) of
        Inl e \<Rightarrow> (Threw e, w)
      | Inr c \<Rightarrow> main w)"


section \<open>The store's side of a filtered scan\<close>

text \<open>
  Modelled from the spec: the store's filtered full-table scan, which is an external
  service and not code of this repository (``numeric less-than comparison on a named
  attribute''; ``items with invalid/missing TTL values are excluded by the comparison
  itself''; a single page). A condition with operator \<^verbatim>\<open>LT\<close> and one number operand holds
  for an attribute that is present, is a number, and is smaller than the operand; an
  attribute of another type does not match. A scan answers with status 200 and the items
  of the table that meet every condition of the filter.
\<close>

definition holds :: "Condition \<Rightarrow> AttributeValue option \<Rightarrow> bool" where
  "holds c v =
     (case (AttributeValueList c, v) of
        ([N operand], Some (N x)) \<Rightarrow> ComparisonOperator c = ''LT'' \<and> x < operand
      | _ \<Rightarrow> False)"

definition store_scan :: "Item list \<Rightarrow> ScanCommandInput \<Rightarrow> error + ScanCommandOutput" where
  "store_scan table input =
     Inr \<lparr>httpStatusCode = Some 200,
          Items = Some (filter (\<lambda>i. list_all (\<lambda>(a, c). holds c (i a)) (ScanFilter input)) table)\<rparr>"

section \<open>The client's side of a request\<close>


section \<open>Vocabulary for batches of deletes\<close>

text \<open>
  What one iteration of the loop of \<^verbatim>\<open>deleteItems\<close> adds to the trace: the log line, then
  the delete request for the key.
\<close>

definition deletion :: "string \<Rightarrow> Record \<Rightarrow> event list" where
  "deletion tableName key =
     [Log [Str (''Deleting DynamoDB item with key: '' @ quote), Json_record key, Str quote],
      Sent (DeleteItemCommand \<lparr>TableName = tableName, Key = key\<rparr>)]"

text \<open>A reaction of the store accepts the delete of a key: it answers with status 200.\<close>

definition accepts :: "string \<Rightarrow> (DeleteItemCommandInput \<Rightarrow> error + DeleteItemCommandOutput) \<Rightarrow> Record \<Rightarrow> bool" where
  "accepts tableName reaction key =
     (case reaction \<lparr>TableName = tableName, Key = key\<rparr> of
        Inr out \<Rightarrow> httpStatusCode out = Some 200
      | Inl e \<Rightarrow> False)"

section \<open>Observations on the trace\<close>

text \<open>The keys of the delete requests in a trace, in the order they were sent.\<close>

definition deleteKeys :: "event list \<Rightarrow> Record list" where
  "deleteKeys t =
     concat (map (\<lambda>e. case e of Sent (DeleteItemCommand input) \<Rightarrow> [Key input] | _ \<Rightarrow> []) t)"

text \<open>
  What one failed attempt of the loop at the start of \<^verbatim>\<open>main\<close> adds to the trace: the
  describe request, the warning, and the five-second sleep.
\<close>

definition retry :: "string \<Rightarrow> event list" where
  "retry tableName =
     [Sent (DescribeTableCommand \<lparr>TableName = tableName\<rparr>),
      Warn [Str (''Table '' @ quote @ tableName @ quote @ '' not found, trying again in ''
                 @ quote @ ''5'' @ quote @ '' seconds'')],
      Sleep 5]"

section \<open>Vocabulary for configuration and key schemas\<close>


text \<open>
  The guard of the loop in \<^verbatim>\<open>getTableKeySchema\<close>, read positively: the key-schema entry has
  an attribute definition (the first one of the same name) and that definition has a type.
\<close>

definition typed :: "AttributeDefinition list option \<Rightarrow> KeySchemaElement \<Rightarrow> bool" where
  "typed defs keySchemaItem =
     (case (case defs of
              None \<Rightarrow> None
            | Some ds \<Rightarrow> find (\<lambda>d. AttributeName d = AttributeName keySchemaItem) ds) of
        None \<Rightarrow> False
      | Some d \<Rightarrow> AttributeType d \<noteq> None \<and> AttributeType d \<noteq> Some [])"

text \<open>
  What the loop in \<^verbatim>\<open>getTableKeySchema\<close> logs for one key-schema entry: a warning when the
  entry is skipped for want of a typed attribute definition, a warning when its key type
  is neither HASH nor RANGE, and nothing otherwise.
\<close>

definition warning :: "AttributeDefinition list option \<Rightarrow> KeySchemaElement \<Rightarrow> event list" where
  "warning defs keySchemaItem =
     (if \<not> typed defs keySchemaItem then
        [Warn [Str (''Could not find attribute definition or type for key '' @ quote
                    @ interpolate (AttributeName keySchemaItem) @ quote)]]
      else if KeyType keySchemaItem = Some KeyType_HASH \<or> KeyType keySchemaItem = Some KeyType_RANGE then []
      else [Warn [Str (''Key '' @ quote @ ''[object Object]'' @ quote @ '' was not key type HASH or RANGE'')]])"

text \<open>The inputs of the scan requests in a trace, in the order they were sent.\<close>

definition scansSent :: "event list \<Rightarrow> ScanCommandInput list" where
  "scansSent t =
     concat (map (\<lambda>e. case e of Sent (ScanCommand input) \<Rightarrow> [input] | _ \<Rightarrow> []) t)"

declare main_loop.simps [simp del] main_resolve.simps [simp del]

section \<open>Example worlds\<close>

text \<open>The configuration of the README's compose file.\<close>

definition exampleEnv :: "string \<rightharpoonup> string" where
  "exampleEnv =
     [''AWS_ENDPOINT'' \<mapsto> ''http://localstack:4566'',
      ''AWS_REGION'' \<mapsto> ''ap-southeast-2'',
      ''TABLE_NAME'' \<mapsto> ''ddb-l-ase2-ms-notifications'',
      ''TTL_ATTRIBUTE'' \<mapsto> ''Expires'']"

text \<open>A world whose store answers the next scan with an empty item list.\<close>

definition quietWorld :: world where
  "quietWorld =
     \<lparr>env = exampleEnv, clock = 2000000, describes = [],
      scans = [\<lambda>input. Inr \<lparr>httpStatusCode = Some 200, Items = Some []\<rparr>],
      deletes = [], trace = []\<rparr>"

text \<open>
  The scenario of the specification: at epoch second 2000 the table holds item \<open>a\<close>
  (expired at 100), item \<open>b\<close> (expires at 9999999999), item \<open>c\<close> without the TTL
  attribute and item \<open>d\<close> whose TTL attribute is a string.
\<close>

definition scenarioTable :: "Item list" where
  "scenarioTable =
     [[''id'' \<mapsto> S ''a'', ''Expires'' \<mapsto> N 100, ''payload'' \<mapsto> S ''x''],
      [''id'' \<mapsto> S ''b'', ''Expires'' \<mapsto> N 9999999999],
      [''id'' \<mapsto> S ''c''],
      [''id'' \<mapsto> S ''d'', ''Expires'' \<mapsto> S ''100'']]"

definition scenarioWorld :: world where
  "scenarioWorld =
     \<lparr>env = exampleEnv, clock = 2000999, describes = [],
      scans = [store_scan scenarioTable],
      deletes = [], trace = []\<rparr>"

text \<open>A world whose store answers the next scan without an item list.\<close>

definition idleWorld :: world where
  "idleWorld =
     \<lparr>env = exampleEnv, clock = 2000000, describes = [],
      scans = [\<lambda>input. Inr \<lparr>httpStatusCode = Some 200, Items = None\<rparr>],
      deletes = [], trace = []\<rparr>"

text \<open>A world whose store describes a table that declares no key schema.\<close>

definition noKeySchemaResponse :: DescribeTableCommandOutput where
  "noKeySchemaResponse =
     \<lparr>httpStatusCode = Some 200,
      Table = Some \<lparr>KeySchema = None, AttributeDefinitions = Some []\<rparr>\<rparr>"

definition noKeySchemaWorld :: world where
  "noKeySchemaWorld =
     \<lparr>env = exampleEnv, clock = 2000000,
      describes = [\<lambda>input. Inr noKeySchemaResponse],
      scans = [], deletes = [], trace = []\<rparr>"

text \<open>Three keys, a store that accepts every delete, and one that refuses the second.\<close>

definition keyA :: Record where
  "keyA = \<lparr>own = [''id'' \<mapsto> Attribute (S ''a'')], prototype = ObjectPrototype\<rparr>"

definition keyB :: Record where
  "keyB = \<lparr>own = [''id'' \<mapsto> Attribute (S ''b'')], prototype = ObjectPrototype\<rparr>"

definition keyC :: Record where
  "keyC = \<lparr>own = [''id'' \<mapsto> Attribute (S ''c'')], prototype = ObjectPrototype\<rparr>"

definition accepted :: "DeleteItemCommandInput \<Rightarrow> error + DeleteItemCommandOutput" where
  "accepted input = Inr \<lparr>httpStatusCode = Some 200\<rparr>"

definition refused :: "DeleteItemCommandInput \<Rightarrow> error + DeleteItemCommandOutput" where
  "refused input = Inr \<lparr>httpStatusCode = Some 500\<rparr>"

definition acceptingWorld :: world where
  "acceptingWorld =
     \<lparr>env = exampleEnv, clock = 2000000, describes = [], scans = [],
      deletes = [accepted, accepted, accepted], trace = []\<rparr>"

definition refusingWorld :: world where
  "refusingWorld =
     \<lparr>env = exampleEnv, clock = 2000000, describes = [], scans = [],
      deletes = [accepted, refused, accepted], trace = []\<rparr>"

text \<open>
  A table whose sort key is named \<^verbatim>\<open>__proto__\<close>, with one expired item; and an item that
  has an attribute named \<^verbatim>\<open>undefined\<close>.
\<close>

definition protoKeys :: KeySchema where
  "protoKeys = \<lparr>hash = Some ''id'', range = Some ''__proto__''\<rparr>"

definition protoItem :: Item where
  "protoItem = [''id'' \<mapsto> S ''a'', ''__proto__'' \<mapsto> N 7, ''Expires'' \<mapsto> N 100]"

definition protoWorld :: world where
  "protoWorld =
     \<lparr>env = exampleEnv, clock = 2000000, describes = [],
      scans = [\<lambda>input. Inr \<lparr>httpStatusCode = Some 200, Items = Some [protoItem]\<rparr>],
      deletes = [accepted], trace = []\<rparr>"

definition undefinedItem :: Item where
  "undefinedItem = [''id'' \<mapsto> S ''a'', ''undefined'' \<mapsto> S ''x'', ''Expires'' \<mapsto> N 100]"

text \<open>
  A table that appears at the third describe request, and a store that fails with
  another exception after one not-found answer.
\<close>

definition notFound :: "DescribeTableCommandInput \<Rightarrow> error + DescribeTableCommandOutput" where
  "notFound input = Inl ResourceNotFoundException"

definition simpleTable :: DescribeTableCommandOutput where
  "simpleTable =
     \<lparr>httpStatusCode = Some 200,
      Table = Some
        \<lparr>KeySchema = Some [\<lparr>AttributeName = Some ''id'', KeyType = Some ''HASH''\<rparr>],
         AttributeDefinitions = Some [\<lparr>AttributeName = Some ''id'', AttributeType = Some ''S''\<rparr>]\<rparr>\<rparr>"

definition lateTableWorld :: world where
  "lateTableWorld =
     \<lparr>env = exampleEnv, clock = 2000000,
      describes = [notFound, notFound, \<lambda>input. Inr simpleTable],
      scans = [], deletes = [], trace = []\<rparr>"

definition brokenStoreWorld :: world where
  "brokenStoreWorld =
     \<lparr>env = exampleEnv, clock = 2000000,
      describes = [notFound, \<lambda>input. Inl (ServiceException ''InternalServerError'')],
      scans = [], deletes = [], trace = []\<rparr>"

text \<open>
  A store that answers a scan with status 500, and a run in which the table is described,
  the scan finds item \<open>a\<close>, and the delete is answered with status 500.
\<close>

definition failedScan :: ScanCommandOutput where
  "failedScan = \<lparr>httpStatusCode = Some 500, Items = None\<rparr>"

definition failedScanWorld :: world where
  "failedScanWorld =
     \<lparr>env = exampleEnv, clock = 2000000, describes = [],
      scans = [\<lambda>input. Inr failedScan], deletes = [], trace = []\<rparr>"

definition failedDeleteWorld :: world where
  "failedDeleteWorld =
     \<lparr>env = exampleEnv, clock = 2000999,
      describes = [\<lambda>input. Inr simpleTable],
      scans = [store_scan scenarioTable],
      deletes = [refused], trace = []\<rparr>"







text \<open>
  Described tables: one whose key schema is the empty list, one with a composite key
  whose sort attribute has no attribute definition, one with a composite key and both
  definitions; each with a world whose store answers the describe request with it.
\<close>

definition keylessTable :: DescribeTableCommandOutput where
  "keylessTable =
     \<lparr>httpStatusCode = Some 200,
      Table = Some \<lparr>KeySchema = Some [], AttributeDefinitions = Some []\<rparr>\<rparr>"

definition keylessWorld :: world where
  "keylessWorld =
     \<lparr>env = exampleEnv, clock = 2000000,
      describes = [\<lambda>input. Inr keylessTable],
      scans = [], deletes = [], trace = []\<rparr>"

definition untypedSortTable :: DescribeTableCommandOutput where
  "untypedSortTable =
     \<lparr>httpStatusCode = Some 200,
      Table = Some
        \<lparr>KeySchema = Some [\<lparr>AttributeName = Some ''id'', KeyType = Some ''HASH''\<rparr>,
                           \<lparr>AttributeName = Some ''ts'', KeyType = Some ''RANGE''\<rparr>],
         AttributeDefinitions = Some [\<lparr>AttributeName = Some ''id'', AttributeType = Some ''S''\<rparr>]\<rparr>\<rparr>"

definition untypedSortWorld :: world where
  "untypedSortWorld =
     \<lparr>env = exampleEnv, clock = 2000000,
      describes = [\<lambda>input. Inr untypedSortTable],
      scans = [], deletes = [], trace = []\<rparr>"

definition compositeTable :: DescribeTableCommandOutput where
  "compositeTable =
     \<lparr>httpStatusCode = Some 200,
      Table = Some
        \<lparr>KeySchema = Some [\<lparr>AttributeName = Some ''id'', KeyType = Some ''HASH''\<rparr>,
                           \<lparr>AttributeName = Some ''ts'', KeyType = Some ''RANGE''\<rparr>],
         AttributeDefinitions = Some [\<lparr>AttributeName = Some ''id'', AttributeType = Some ''S''\<rparr>,
                                      \<lparr>AttributeName = Some ''ts'', AttributeType = Some ''N''\<rparr>]\<rparr>\<rparr>"

definition compositeWorld :: world where
  "compositeWorld =
     \<lparr>env = exampleEnv, clock = 2000000,
      describes = [\<lambda>input. Inr compositeTable],
      scans = [], deletes = [], trace = []\<rparr>"

section \<open>Auxiliary facts\<close>

lemma epoch_seconds: "\<lfloor>(of_int m :: rat) / 1000\<rfloor> = m div 1000"
  using floor_divide_of_int_eq [of m 1000, where ?'a = rat] by simp

lemma getRequiredEnvironmentVariable_set:
  "e name = Some v \<Longrightarrow> v \<noteq> [] \<Longrightarrow> getRequiredEnvironmentVariable e name = Inr v"
  by (simp add: getRequiredEnvironmentVariable_def)

lemma getExpiredItemKeys_answered:
  assumes "env w ''TABLE_NAME'' = Some tableName" and "tableName \<noteq> []"
    and "env w ''TTL_ATTRIBUTE'' = Some ttl" and "ttl \<noteq> []"
    and "scans w = r # rest"
    and "r (scanInput tableName ttl (clock w)) = Inr response"
  shows "getExpiredItemKeys keySchema w =
     (if httpStatusCode response \<noteq> Some 200 then
        Threw (Error [Str (''Failed to scan DynamoDB items '' @ quote), Json_scan response, Str quote])
      else Returned (map_option (map (toKeyRecord keySchema)) (Items response)),
      w\<lparr>scans := rest,
        trace := trace w @ [Sent (ScanCommand (scanInput tableName ttl (clock w)))]\<rparr>)"
  using assms
  by (simp add: getExpiredItemKeys_def getRequiredEnvironmentVariable_set send_Scan_def settle_def
        split: option.splits)

lemma main_loop_cycle:
  assumes "getExpiredItemKeys keySchema
             (console_log [Str ''Scanning for new expired DynamoDB items...''] w) = (Returned x, w1)"
    and "(case x of
            Some keys \<Rightarrow> deleteItems keys w1
          | None \<Rightarrow> (Returned (), console_log [Str ''No expired items to delete''] w1)) = (Returned u, w2)"
  shows "main_loop keySchema w =
           main_loop keySchema (sleep 5 (console_log [Str ''Sleeping for 5 seconds...''] w2))"
  using assms by (subst main_loop.simps) simp

lemma getTableKeySchema_answered:
  assumes "env w ''TABLE_NAME'' = Some tableName" and "tableName \<noteq> []"
    and "describes w = r # rest"
    and "r \<lparr>TableName = tableName\<rparr> = Inr response"
  shows "getTableKeySchema w =
     (if httpStatusCode response \<noteq> Some 200 \<or> Table response = None then
        (Threw (Error [Str (''Failed to describe DynamoDB table '' @ quote),
                       Json_describe response, Str quote]),
         w\<lparr>describes := rest,
           trace := trace w @ [Sent (DescribeTableCommand \<lparr>TableName = tableName\<rparr>)]\<rparr>)
      else
        (case KeySchema (the (Table response)) of
           None \<Rightarrow>
             (Threw (Error [Str (''No key schema defined on DynamoDB table '' @ quote),
                            Json_describe response, Str quote]),
              w\<lparr>describes := rest,
                trace := trace w @ [Sent (DescribeTableCommand \<lparr>TableName = tableName\<rparr>)]\<rparr>)
         | Some entries \<Rightarrow>
             (case keySchemaLoop (AttributeDefinitions (the (Table response))) entries
                     \<lparr>hash = None, range = None\<rparr>
                     (w\<lparr>describes := rest,
                        trace := trace w @ [Sent (DescribeTableCommand \<lparr>TableName = tableName\<rparr>)]\<rparr>) of
                (keySchema, w'') \<Rightarrow> (Returned keySchema, w''))))"
  using assms
  by (simp add: getTableKeySchema_def getRequiredEnvironmentVariable_set send_DescribeTable_def
        settle_def split: option.splits)

lemma main_resolve_settled:
  assumes "getTableKeySchema w = (x, w')" and "x \<noteq> Threw ResourceNotFoundException"
  shows "main_resolve w = (x, w')"
  using assms by (subst main_resolve.simps) (cases x; simp)

lemma program_configured:
  "env w ''AWS_ENDPOINT'' = Some ep \<Longrightarrow> ep \<noteq> [] \<Longrightarrow> program w = main w"
  by (simp add: program_def client_def getRequiredEnvironmentVariable_set)

lemma deleteItems_answered:
  assumes "env w ''TABLE_NAME'' = Some tableName" and "tableName \<noteq> []"
    and "deletes w = d # later"
    and "d \<lparr>TableName = tableName, Key = key\<rparr> = Inr out"
  shows "deleteItems (key # keys) w =
     (if httpStatusCode out \<noteq> Some 200 then
        (Threw (Error [Str (''Failed to delete DynamoDB item with key '' @ quote),
                       Json_record key, Str quote]),
         w\<lparr>deletes := later, trace := trace w @ deletion tableName key\<rparr>)
      else deleteItems keys (w\<lparr>deletes := later, trace := trace w @ deletion tableName key\<rparr>))"
  using assms
  by (simp add: console_log_def getRequiredEnvironmentVariable_set send_DeleteItem_def settle_def
        deletion_def)

lemma deleteItems_accepted:
  assumes "list_all2 (accepts tableName) ds succeeded"
    and "env w ''TABLE_NAME'' = Some tableName" and "tableName \<noteq> []"
    and "deletes w = ds @ later"
  shows "deleteItems (succeeded @ keys) w =
     deleteItems keys
       (w\<lparr>deletes := later, trace := trace w @ concat (map (deletion tableName) succeeded)\<rparr>)"
  using assms
proof (induction ds succeeded arbitrary: w rule: list_all2_induct)
  case Nil
  then have "w\<lparr>deletes := later, trace := trace w @ concat (map (deletion tableName) [])\<rparr> = w"
    by (cases w) simp
  then show ?case by simp
next
  case (Cons d ds key succeeded)
  from Cons.hyps(1) obtain out
    where out: "d \<lparr>TableName = tableName, Key = key\<rparr> = Inr out" "httpStatusCode out = Some 200"
    by (auto simp: accepts_def split: sum.splits)
  let ?w1 = "w\<lparr>deletes := ds @ later, trace := trace w @ deletion tableName key\<rparr>"
  have "deleteItems ((key # succeeded) @ keys) w = deleteItems (succeeded @ keys) ?w1"
    using deleteItems_answered [of w tableName d "ds @ later" key out "succeeded @ keys"] Cons.prems out
    by simp
  also have "\<dots> = deleteItems keys
       (?w1\<lparr>deletes := later, trace := trace ?w1 @ concat (map (deletion tableName) succeeded)\<rparr>)"
    using Cons.prems by (intro Cons.IH) simp_all
  finally show ?case by simp
qed

lemma deleteKeys_append [simp]: "deleteKeys (s @ t) = deleteKeys s @ deleteKeys t"
  by (simp add: deleteKeys_def)

lemma deleteKeys_simps [simp]:
  "deleteKeys [] = []"
  "deleteKeys (Log m # t) = deleteKeys t"
  "deleteKeys (Warn m # t) = deleteKeys t"
  "deleteKeys (Sleep n # t) = deleteKeys t"
  "deleteKeys (Sent (ScanCommand si) # t) = deleteKeys t"
  "deleteKeys (Sent (DescribeTableCommand di) # t) = deleteKeys t"
  "deleteKeys (Sent (DeleteItemCommand input) # t) = Key input # deleteKeys t"
  by (simp_all add: deleteKeys_def)

lemma getTableKeySchema_thrown:
  assumes "env w ''TABLE_NAME'' = Some tableName" and "tableName \<noteq> []"
    and "describes w = r # rest"
    and "r \<lparr>TableName = tableName\<rparr> = Inl e"
  shows "getTableKeySchema w =
     (Threw e,
      w\<lparr>describes := rest,
        trace := trace w @ [Sent (DescribeTableCommand \<lparr>TableName = tableName\<rparr>)]\<rparr>)"
  using assms
  by (simp add: getTableKeySchema_def getRequiredEnvironmentVariable_set send_DescribeTable_def
        settle_def)

lemma main_resolve_retry:
  assumes "env w ''TABLE_NAME'' = Some tableName" and "tableName \<noteq> []"
    and "describes w = r # rest"
    and "r \<lparr>TableName = tableName\<rparr> = Inl ResourceNotFoundException"
  shows "main_resolve w =
     main_resolve (w\<lparr>clock := clock w + 5000, describes := rest,
                     trace := trace w @ retry tableName\<rparr>)"
proof -
  have "main_resolve w =
     main_resolve (sleep 5 (console_warn
        [Str (''Table '' @ quote @ tableName @ quote @ '' not found, trying again in ''
                 @ quote @ ''5'' @ quote @ '' seconds'')]
        (w\<lparr>describes := rest,
           trace := trace w @ [Sent (DescribeTableCommand \<lparr>TableName = tableName\<rparr>)]\<rparr>)))"
    using assms getTableKeySchema_thrown [OF assms]
    by (subst main_resolve.simps) (simp add: getRequiredEnvironmentVariable_set)
  also have "sleep 5 (console_warn
        [Str (''Table '' @ quote @ tableName @ quote @ '' not found, trying again in ''
                 @ quote @ ''5'' @ quote @ '' seconds'')]
        (w\<lparr>describes := rest,
           trace := trace w @ [Sent (DescribeTableCommand \<lparr>TableName = tableName\<rparr>)]\<rparr>))
      = w\<lparr>clock := clock w + 5000, describes := rest, trace := trace w @ retry tableName\<rparr>"
    by (cases w) (simp add: sleep_def console_warn_def retry_def)
  finally show ?thesis .
qed

lemma main_resolve_retries:
  assumes "\<forall>r\<in>set absent. r \<lparr>TableName = tableName\<rparr> = Inl ResourceNotFoundException"
    and "env w ''TABLE_NAME'' = Some tableName" and "tableName \<noteq> []"
    and "describes w = absent @ rest"
  shows "main_resolve w =
     main_resolve (w\<lparr>clock := clock w + 5000 * int (length absent), describes := rest,
                     trace := trace w @ concat (replicate (length absent) (retry tableName))\<rparr>)"
  using assms
proof (induction absent arbitrary: w)
  case Nil
  then have "w\<lparr>clock := clock w + 5000 * int (length ([] :: (DescribeTableCommandInput \<Rightarrow> error + DescribeTableCommandOutput) list)),
      describes := rest,
      trace := trace w @ concat (replicate (length ([] :: (DescribeTableCommandInput \<Rightarrow> error + DescribeTableCommandOutput) list)) (retry tableName))\<rparr> = w"
    by (cases w) simp
  then show ?case by simp
next
  case (Cons r absent)
  let ?w1 = "w\<lparr>clock := clock w + 5000, describes := absent @ rest,
               trace := trace w @ retry tableName\<rparr>"
  have "main_resolve w = main_resolve ?w1"
    using Cons.prems main_resolve_retry [of w tableName r "absent @ rest"] by simp
  also have "\<dots> = main_resolve (?w1\<lparr>clock := clock ?w1 + 5000 * int (length absent), describes := rest,
                     trace := trace ?w1 @ concat (replicate (length absent) (retry tableName))\<rparr>)"
    using Cons.prems Cons.IH [of ?w1] by simp
  also have "?w1\<lparr>clock := clock ?w1 + 5000 * int (length absent), describes := rest,
                     trace := trace ?w1 @ concat (replicate (length absent) (retry tableName))\<rparr>
     = w\<lparr>clock := clock w + 5000 * int (length (r # absent)), describes := rest,
                     trace := trace w @ concat (replicate (length (r # absent)) (retry tableName))\<rparr>"
    by (cases w) (simp add: algebra_simps)
  finally show ?case .
qed


lemma getTableKeySchema_unanswered:
  assumes "env w ''TABLE_NAME'' = Some tableName" and "tableName \<noteq> []"
    and "describes w = []"
  shows "getTableKeySchema w =
     (Pending, w\<lparr>trace := trace w @ [Sent (DescribeTableCommand \<lparr>TableName = tableName\<rparr>)]\<rparr>)"
  using assms
  by (simp add: getTableKeySchema_def getRequiredEnvironmentVariable_set send_DescribeTable_def)

lemma keySchemaLoop_hash:
  "hash (fst (keySchemaLoop defs entries keySchema w)) =
     (case filter (\<lambda>item. typed defs item \<and> KeyType item = Some KeyType_HASH) entries of
        [] \<Rightarrow> hash keySchema
      | item # items \<Rightarrow> AttributeName (last (item # items)))"
proof (induction entries arbitrary: keySchema w)
  case Nil
  then show ?case by simp
next
  case (Cons item entries)
  show ?case
    by (simp add: Cons.IH typed_def Let_def KeyType_HASH_def KeyType_RANGE_def
          split: option.splits list.splits)
qed

lemma keySchemaLoop_range:
  "range (fst (keySchemaLoop defs entries keySchema w)) =
     (case filter (\<lambda>item. typed defs item \<and> KeyType item = Some KeyType_RANGE) entries of
        [] \<Rightarrow> range keySchema
      | item # items \<Rightarrow> AttributeName (last (item # items)))"
proof (induction entries arbitrary: keySchema w)
  case Nil
  then show ?case by simp
next
  case (Cons item entries)
  show ?case
    by (simp add: Cons.IH typed_def Let_def KeyType_HASH_def KeyType_RANGE_def
          split: option.splits list.splits)
qed

lemma keySchemaLoop_world:
  "snd (keySchemaLoop defs entries keySchema w) =
     w\<lparr>trace := trace w @ concat (map (warning defs) entries)\<rparr>"
proof (induction entries arbitrary: keySchema w)
  case Nil
  show ?case by (cases w) simp
next
  case (Cons item entries)
  show ?case
    by (cases w)
      (simp add: Cons.IH warning_def typed_def Let_def console_warn_def
         split: option.splits)
qed

lemma scansSent_append [simp]: "scansSent (s @ t) = scansSent s @ scansSent t"
  by (simp add: scansSent_def)

lemma scansSent_simps [simp]:
  "scansSent [] = []"
  "scansSent (Log m # t) = scansSent t"
  "scansSent (Warn m # t) = scansSent t"
  "scansSent (Sleep n # t) = scansSent t"
  "scansSent (Sent (ScanCommand si) # t) = si # scansSent t"
  "scansSent (Sent (DescribeTableCommand di) # t) = scansSent t"
  "scansSent (Sent (DeleteItemCommand input) # t) = scansSent t"
  by (simp_all add: scansSent_def)

lemma keySchemaLoop_scansSent:
  "scansSent (trace (snd (keySchemaLoop defs entries keySchema w))) = scansSent (trace w)"
  by (induction entries arbitrary: keySchema w) (simp_all add: Let_def console_warn_def)

lemma getTableKeySchema_scansSent:
  "scansSent (trace (snd (getTableKeySchema w))) = scansSent (trace w)"
  by (auto simp: getTableKeySchema_def send_DescribeTable_def keySchemaLoop_scansSent
        split: sum.splits list.splits outcome.splits prod.splits option.splits
        dest: arg_cong [where f = "\<lambda>p. scansSent (trace (snd p))"])


lemma main_resolve_scansSent:
  "scansSent (trace (snd (main_resolve w))) = scansSent (trace w)"
proof (induction w rule: main_resolve.induct)
  case (1 w)
  obtain x w' where g: "getTableKeySchema w = (x, w')"
    by (cases "getTableKeySchema w")
  with getTableKeySchema_scansSent [of w] have t: "scansSent (trace w') = scansSent (trace w)"
    by simp
  show ?case
  proof (cases "x = Threw ResourceNotFoundException")
    case False
    with g have "main_resolve w = (x, w')"
      by (rule main_resolve_settled)
    with t show ?thesis by simp
  next
    case True
    show ?thesis
    proof (cases "getRequiredEnvironmentVariable (env w') ''TABLE_NAME''")
      case (Inl e)
      with g True have "main_resolve w = (Threw e, w')"
        by (subst main_resolve.simps) simp
      with t show ?thesis by simp
    next
      case (Inr tableName)
      let ?w1 = "sleep 5 (console_warn
          [Str (''Table '' @ quote @ tableName @ quote @ '' not found, trying again in ''
                @ quote @ ''5'' @ quote @ '' seconds'')] w')"
      from g True Inr have "main_resolve w = main_resolve ?w1"
        by (subst main_resolve.simps) simp
      moreover from "1.IH" [OF g [symmetric] True _ Inr]
      have "scansSent (trace (snd (main_resolve ?w1))) = scansSent (trace ?w1)"
        by simp
      ultimately show ?thesis
        using t by (simp add: sleep_def console_warn_def)
    qed
  qed
qed

lemma deleteItems_extends: "\<exists>added. trace (snd (deleteItems keys w)) = trace w @ added"
proof (induction keys arbitrary: w)
  case Nil
  then show ?case by simp
next
  case (Cons key keys)
  let ?w1 = "console_log [Str (''Deleting DynamoDB item with key: '' @ quote), Json_record key, Str quote] w"
  show ?case
  proof (cases "getRequiredEnvironmentVariable (env ?w1) ''TABLE_NAME''")
    case (Inl e)
    then show ?thesis by (simp add: console_log_def)
  next
    case (Inr tableName)
    obtain y w2 where send: "send_DeleteItem \<lparr>TableName = tableName, Key = key\<rparr> ?w1 = (y, w2)"
      by (cases "send_DeleteItem \<lparr>TableName = tableName, Key = key\<rparr> ?w1")
    then have w2: "trace w2 = trace w @ deletion tableName key"
      by (auto simp: send_DeleteItem_def console_log_def deletion_def split: list.splits)
    show ?thesis
    proof (cases "\<exists>response. y = Returned response \<and> httpStatusCode response = Some 200")
      case True
      with Inr send have "deleteItems (key # keys) w = deleteItems keys w2"
        by auto
      with Cons.IH [of w2] w2 show ?thesis by auto
    next
      case False
      with Inr send have "snd (deleteItems (key # keys) w) = w2"
        by (cases y) (auto split: if_splits)
      with w2 show ?thesis by simp
    qed
  qed
qed

lemma getExpiredItemKeys_extends:
  "\<exists>added. trace (snd (getExpiredItemKeys keySchema w)) = trace w @ added"
  by (auto simp: getExpiredItemKeys_def send_Scan_def
        split: sum.splits list.splits outcome.splits prod.splits if_splits option.splits)

lemma main_loop_extends: "\<exists>added. trace (snd (main_loop keySchema w)) = trace w @ added"
proof (induction keySchema w rule: main_loop.induct)
  case (1 keySchema w)
  let ?w0 = "console_log [Str ''Scanning for new expired DynamoDB items...''] w"
  obtain x w1 where scan: "getExpiredItemKeys keySchema ?w0 = (x, w1)"
    by (cases "getExpiredItemKeys keySchema ?w0")
  from getExpiredItemKeys_extends [of keySchema ?w0] scan
  obtain a1 where t1: "trace w1 = trace w @ a1"
    by (auto simp: console_log_def)
  show ?case
  proof (cases x)
    case (Returned expiredItems)
    let ?d = "case expiredItems of
                Some keys \<Rightarrow> deleteItems keys w1
              | None \<Rightarrow> (Returned (), console_log [Str ''No expired items to delete''] w1)"
    obtain xa w2 where del: "?d = (xa, w2)"
      by (cases ?d)
    have "\<exists>a2. trace w2 = trace w1 @ a2"
    proof (cases expiredItems)
      case None
      with del show ?thesis by (auto simp: console_log_def)
    next
      case (Some keys)
      with del deleteItems_extends [of keys w1] show ?thesis by auto
    qed
    with t1 obtain a2 where t2: "trace w2 = trace w @ a2" by auto
    show ?thesis
    proof (cases xa)
      case (Returned u)
      let ?w3 = "sleep 5 (console_log [Str ''Sleeping for 5 seconds...''] w2)"
      from "1.IH" [OF scan [symmetric] \<open>x = Returned expiredItems\<close> del [symmetric] Returned]
      obtain a3 where "trace (snd (main_loop keySchema ?w3)) = trace ?w3 @ a3" by auto
      moreover have "main_loop keySchema w = main_loop keySchema ?w3"
        using scan \<open>x = Returned expiredItems\<close> del Returned
        by (subst main_loop.simps) simp
      ultimately show ?thesis
        using t2 by (simp add: sleep_def console_log_def)
    next
      case (Threw e)
      have "main_loop keySchema w = (Threw e, w2)"
        using scan \<open>x = Returned expiredItems\<close> del Threw
        by (subst main_loop.simps) simp
      with t2 show ?thesis by simp
    next
      case Pending
      have "main_loop keySchema w = (Pending, w2)"
        using scan \<open>x = Returned expiredItems\<close> del Pending
        by (subst main_loop.simps) simp
      with t2 show ?thesis by simp
    qed
  next
    case (Threw e)
    have "main_loop keySchema w = (Threw e, w1)"
      using scan Threw by (subst main_loop.simps) simp
    with t1 show ?thesis by simp
  next
    case Pending
    have "main_loop keySchema w = (Pending, w1)"
      using scan Pending by (subst main_loop.simps) simp
    with t1 show ?thesis by simp
  qed
qed

lemma getExpiredItemKeys_sends:
  assumes "env w ''TABLE_NAME'' = Some tableName" and "tableName \<noteq> []"
    and "env w ''TTL_ATTRIBUTE'' = Some ttl" and "ttl \<noteq> []"
  shows "trace (snd (getExpiredItemKeys keySchema w)) =
           trace w @ [Sent (ScanCommand (scanInput tableName ttl (clock w)))]"
  using assms
  by (auto simp: getExpiredItemKeys_def getRequiredEnvironmentVariable_set send_Scan_def
        split: list.splits outcome.splits prod.splits option.splits)

lemma main_loop_begins:
  assumes "env w ''TABLE_NAME'' = Some tableName" and "tableName \<noteq> []"
    and "env w ''TTL_ATTRIBUTE'' = Some ttl" and "ttl \<noteq> []"
  shows "\<exists>added. trace (snd (main_loop keySchema w)) =
           trace w @ [Log [Str ''Scanning for new expired DynamoDB items...''],
                      Sent (ScanCommand (scanInput tableName ttl (clock w)))] @ added"
proof -
  let ?w0 = "console_log [Str ''Scanning for new expired DynamoDB items...''] w"
  obtain x w1 where scan: "getExpiredItemKeys keySchema ?w0 = (x, w1)"
    by (cases "getExpiredItemKeys keySchema ?w0")
  from getExpiredItemKeys_sends [of ?w0 tableName ttl keySchema] assms scan
  have t1: "trace w1 = trace w @ [Log [Str ''Scanning for new expired DynamoDB items...''],
                      Sent (ScanCommand (scanInput tableName ttl (clock w)))]"
    by (simp add: console_log_def)
  show ?thesis
  proof (cases x)
    case (Returned expiredItems)
    let ?d = "case expiredItems of
                Some keys \<Rightarrow> deleteItems keys w1
              | None \<Rightarrow> (Returned (), console_log [Str ''No expired items to delete''] w1)"
    obtain xa w2 where del: "?d = (xa, w2)"
      by (cases ?d)
    have "\<exists>a2. trace w2 = trace w1 @ a2"
    proof (cases expiredItems)
      case None
      with del show ?thesis by (auto simp: console_log_def)
    next
      case (Some keys)
      with del deleteItems_extends [of keys w1] show ?thesis by auto
    qed
    then obtain a2 where t2: "trace w2 = trace w1 @ a2" by auto
    show ?thesis
    proof (cases xa)
      case (Returned u)
      let ?w3 = "sleep 5 (console_log [Str ''Sleeping for 5 seconds...''] w2)"
      from main_loop_extends [of keySchema ?w3]
      obtain a3 where "trace (snd (main_loop keySchema ?w3)) = trace ?w3 @ a3" by auto
      moreover have "main_loop keySchema w = main_loop keySchema ?w3"
        using scan \<open>x = Returned expiredItems\<close> del Returned
        by (subst main_loop.simps) simp
      ultimately show ?thesis
        using t1 t2 by (simp add: sleep_def console_log_def)
    next
      case (Threw e)
      have "main_loop keySchema w = (Threw e, w2)"
        using scan \<open>x = Returned expiredItems\<close> del Threw
        by (subst main_loop.simps) simp
      with t1 t2 show ?thesis by simp
    next
      case Pending
      have "main_loop keySchema w = (Pending, w2)"
        using scan \<open>x = Returned expiredItems\<close> del Pending
        by (subst main_loop.simps) simp
      with t1 t2 show ?thesis by simp
    qed
  next
    case (Threw e)
    have "main_loop keySchema w = (Threw e, w1)"
      using scan Threw by (subst main_loop.simps) simp
    with t1 show ?thesis by simp
  next
    case Pending
    have "main_loop keySchema w = (Pending, w1)"
      using scan Pending by (subst main_loop.simps) simp
    with t1 show ?thesis by simp
  qed
qed


lemma getExpiredItemKeys_unanswered:
  assumes "env w ''TABLE_NAME'' = Some tableName" and "tableName \<noteq> []"
    and "env w ''TTL_ATTRIBUTE'' = Some ttl" and "ttl \<noteq> []"
    and "scans w = []"
  shows "getExpiredItemKeys keySchema w =
     (Pending, w\<lparr>trace := trace w @ [Sent (ScanCommand (scanInput tableName ttl (clock w)))]\<rparr>)"
  using assms
  by (simp add: getExpiredItemKeys_def getRequiredEnvironmentVariable_set send_Scan_def)

lemma main_loop_idle_cycle:
  assumes "env w ''TABLE_NAME'' = Some tableName" and "tableName \<noteq> []"
    and "env w ''TTL_ATTRIBUTE'' = Some ttl" and "ttl \<noteq> []"
    and "scans w = r # rest"
    and "r (scanInput tableName ttl (clock w)) = Inr response"
    and "httpStatusCode response = Some 200"
    and "Items response = None \<or> Items response = Some []"
  shows "main_loop keySchema w =
        main_loop keySchema
          (w\<lparr>scans := rest, clock := clock w + 5000,
             trace := trace w @
               [Log [Str ''Scanning for new expired DynamoDB items...''],
                Sent (ScanCommand (scanInput tableName ttl (clock w)))]
               @ (if Items response = None then [Log [Str ''No expired items to delete'']] else [])
               @ [Log [Str ''Sleeping for 5 seconds...''], Sleep 5]\<rparr>)"
proof -
  let ?w0 = "console_log [Str ''Scanning for new expired DynamoDB items...''] w"
  let ?w1 = "?w0\<lparr>scans := rest,
               trace := trace ?w0 @ [Sent (ScanCommand (scanInput tableName ttl (clock w)))]\<rparr>"
  let ?x = "map_option (map (toKeyRecord keySchema)) (Items response)"
  let ?w2 = "if Items response = None then console_log [Str ''No expired items to delete''] ?w1 else ?w1"
  have scan: "getExpiredItemKeys keySchema ?w0 = (Returned ?x, ?w1)"
    using assms getExpiredItemKeys_answered [of ?w0 tableName ttl r rest response keySchema]
    by (simp add: console_log_def)
  have del: "(case ?x of
            Some keys \<Rightarrow> deleteItems keys ?w1
          | None \<Rightarrow> (Returned (), console_log [Str ''No expired items to delete''] ?w1))
        = (Returned (), ?w2)"
    using assms(8) by auto
  have "main_loop keySchema w =
      main_loop keySchema (sleep 5 (console_log [Str ''Sleeping for 5 seconds...''] ?w2))"
    by (rule main_loop_cycle [OF scan del])
  then show ?thesis
    using assms(8) by (auto simp: sleep_def console_log_def)
qed

section \<open>The deleter on an empty batch\<close>

text \<open>
  Claim C10. \<^verbatim>\<open>deleteItems\<close> applied to the empty list returns successfully and leaves the
  world as it was, so no delete request is issued. When the store answers a scan with
  status 200 and an empty item list, \<^verbatim>\<open>getExpiredItemKeys\<close> returns the empty list (not
  \<^verbatim>\<open>undefined\<close>), the loop takes the \<^verbatim>\<open>deleteItems\<close> branch (the line
  ``No expired items to delete'' is not logged), no delete request is sent, and the loop
  goes on to its next cycle after sleeping five seconds.
\<close>

theorem deleteItems_empty_batch:
  assumes "env w ''TABLE_NAME'' = Some tableName" and "tableName \<noteq> []"
    and "env w ''TTL_ATTRIBUTE'' = Some ttl" and "ttl \<noteq> []"
    and "scans w = r # rest"
    and "r (scanInput tableName ttl (clock w)) = Inr \<lparr>httpStatusCode = Some 200, Items = Some []\<rparr>"
  shows "deleteItems [] w' = (Returned (), w')
    \<and> getExpiredItemKeys keySchema w =
        (Returned (Some []),
         w\<lparr>scans := rest, trace := trace w @ [Sent (ScanCommand (scanInput tableName ttl (clock w)))]\<rparr>)
    \<and> main_loop keySchema w =
        main_loop keySchema
          (w\<lparr>scans := rest, clock := clock w + 5000,
             trace := trace w @
               [Log [Str ''Scanning for new expired DynamoDB items...''],
                Sent (ScanCommand (scanInput tableName ttl (clock w))),
                Log [Str ''Sleeping for 5 seconds...''],
                Sleep 5]\<rparr>)"
proof -
  let ?w0 = "console_log [Str ''Scanning for new expired DynamoDB items...''] w"
  let ?w1 = "?w0\<lparr>scans := rest,
               trace := trace ?w0 @ [Sent (ScanCommand (scanInput tableName ttl (clock w)))]\<rparr>"
  have scan: "getExpiredItemKeys keySchema ?w0 = (Returned (Some []), ?w1)"
    using assms
      getExpiredItemKeys_answered [of ?w0 tableName ttl r rest
        "\<lparr>httpStatusCode = Some 200, Items = Some []\<rparr>" keySchema]
    by (simp add: console_log_def)
  have "main_loop keySchema w =
      main_loop keySchema (sleep 5 (console_log [Str ''Sleeping for 5 seconds...''] ?w1))"
    by (rule main_loop_cycle [OF scan]) simp
  moreover have "getExpiredItemKeys keySchema w =
        (Returned (Some []),
         w\<lparr>scans := rest, trace := trace w @ [Sent (ScanCommand (scanInput tableName ttl (clock w)))]\<rparr>)"
    using assms
      getExpiredItemKeys_answered [of w tableName ttl r rest
        "\<lparr>httpStatusCode = Some 200, Items = Some []\<rparr>" keySchema]
    by simp
  ultimately show ?thesis
    by (simp add: sleep_def console_log_def)
qed

theorem deleteItems_empty_batch_witness:
  "deleteItems [] quietWorld = (Returned (), quietWorld)
   \<and> fst (getExpiredItemKeys \<lparr>hash = Some ''id'', range = None\<rparr> quietWorld) = Returned (Some [])
   \<and> main_loop \<lparr>hash = Some ''id'', range = None\<rparr> quietWorld =
       main_loop \<lparr>hash = Some ''id'', range = None\<rparr>
         (quietWorld\<lparr>scans := [], clock := 2005000,
            trace :=
              [Log [Str ''Scanning for new expired DynamoDB items...''],
               Sent (ScanCommand (scanInput ''ddb-l-ase2-ms-notifications'' ''Expires'' 2000000)),
               Log [Str ''Sleeping for 5 seconds...''],
               Sleep 5]\<rparr>)"
proof -
  have h1: "env quietWorld ''TABLE_NAME'' = Some ''ddb-l-ase2-ms-notifications''"
    and h2: "''ddb-l-ase2-ms-notifications'' \<noteq> []"
    and h3: "env quietWorld ''TTL_ATTRIBUTE'' = Some ''Expires''"
    and h4: "''Expires'' \<noteq> []"
    and h5: "scans quietWorld = (\<lambda>input. Inr \<lparr>httpStatusCode = Some 200, Items = Some []\<rparr>) # []"
    and h6: "(\<lambda>input. Inr \<lparr>httpStatusCode = Some 200, Items = Some []\<rparr>)
               (scanInput ''ddb-l-ase2-ms-notifications'' ''Expires'' (clock quietWorld))
             = (Inr \<lparr>httpStatusCode = Some 200, Items = Some []\<rparr> :: error + ScanCommandOutput)"
    by (simp_all add: quietWorld_def exampleEnv_def)
  show ?thesis
    using deleteItems_empty_batch [OF h1 h2 h3 h4 h5 h6,
        of quietWorld "\<lparr>hash = Some ''id'', range = None\<rparr>"]
    by (simp add: quietWorld_def)
qed

section \<open>Which items a scan selects\<close>

text \<open>
  Claim C1. In a scan cycle the program asks the store for the items whose TTL attribute
  is less than \<open>\<lfloor>now / 1000\<rfloor>\<close>, the current time in whole epoch seconds. With a store
  that evaluates the filter as documented, the result is made of exactly the items whose
  TTL attribute is a number strictly below that value, each reduced to its key: an item
  whose TTL is greater or equal, missing, or not a number is left out.
\<close>

theorem scan_selects_expired:
  assumes "env w ''TABLE_NAME'' = Some tableName" and "tableName \<noteq> []"
    and "env w ''TTL_ATTRIBUTE'' = Some ttl" and "ttl \<noteq> []"
    and "scans w = store_scan table # rest"
  shows "getExpiredItemKeys keySchema w =
      (Returned (Some (map (toKeyRecord keySchema)
         (filter (\<lambda>i. case i ttl of
                          Some (N v) \<Rightarrow> v < of_int \<lfloor>(of_int (clock w) :: rat) / 1000\<rfloor>
                        | _ \<Rightarrow> False) table))),
       w\<lparr>scans := rest,
         trace := trace w @
           [Sent (ScanCommand
              \<lparr>TableName = tableName,
               ScanFilter = [(ttl, \<lparr>ComparisonOperator = ''LT'',
                  AttributeValueList = [N (of_int \<lfloor>(of_int (clock w) :: rat) / 1000\<rfloor>)]\<rparr>)]\<rparr>)]\<rparr>)"
proof -
  have sel: "(\<lambda>i. list_all (\<lambda>(a, c). holds c (i a)) (ScanFilter (scanInput tableName ttl (clock w))))
      = (\<lambda>i. case i ttl of
                 Some (N v) \<Rightarrow> v < of_int \<lfloor>(of_int (clock w) :: rat) / 1000\<rfloor>
               | _ \<Rightarrow> False)"
    by (rule ext) (simp add: scanInput_def holds_def split: option.splits AttributeValue.splits)
  have "store_scan table (scanInput tableName ttl (clock w)) =
      Inr \<lparr>httpStatusCode = Some 200,
           Items = Some (filter (\<lambda>i. case i ttl of
                 Some (N v) \<Rightarrow> v < of_int \<lfloor>(of_int (clock w) :: rat) / 1000\<rfloor>
               | _ \<Rightarrow> False) table)\<rparr>"
    unfolding store_scan_def sel ..
  from getExpiredItemKeys_answered [OF assms this, of keySchema]
  show ?thesis
    by (simp add: scanInput_def)
qed

theorem scan_selects_expired_witness:
  "env scenarioWorld ''TABLE_NAME'' = Some ''ddb-l-ase2-ms-notifications''
   \<and> env scenarioWorld ''TTL_ATTRIBUTE'' = Some ''Expires''
   \<and> scans scenarioWorld = store_scan scenarioTable # []
   \<and> fst (getExpiredItemKeys \<lparr>hash = Some ''id'', range = None\<rparr> scenarioWorld)
       = Returned (Some [\<lparr>own = [''id'' \<mapsto> Attribute (S ''a'')], prototype = ObjectPrototype\<rparr>])"
proof -
  have h1: "env scenarioWorld ''TABLE_NAME'' = Some ''ddb-l-ase2-ms-notifications''"
    and h2: "''ddb-l-ase2-ms-notifications'' \<noteq> []"
    and h3: "env scenarioWorld ''TTL_ATTRIBUTE'' = Some ''Expires''"
    and h4: "''Expires'' \<noteq> []"
    and h5: "scans scenarioWorld = store_scan scenarioTable # []"
    by (simp_all add: scenarioWorld_def exampleEnv_def)
  have now: "\<lfloor>(of_int (clock scenarioWorld) :: rat) / 1000\<rfloor> = 2000"
    unfolding epoch_seconds by (simp add: scenarioWorld_def)
  show ?thesis
    using scan_selects_expired [OF h1 h2 h3 h4 h5, of "\<lparr>hash = Some ''id'', range = None\<rparr>"]
    by (simp add: h1 h3 h5 now scenarioTable_def toKeyRecord_def propertyKey_def getProperty_def)
qed

section \<open>A cycle without expired items\<close>

text \<open>
  Claim C8. When the store answers the scan of a cycle with status 200 and no items
  (an empty list, or no list at all), \<^verbatim>\<open>getExpiredItemKeys\<close> returns an empty result
  instead of throwing, and the loop does not end in this cycle: whatever happens later,
  its trace continues with the scan, the line ``No expired items to delete'' when there
  is no list, the sleep of five seconds, and then the log line and the scan request of
  the next cycle, five seconds later on the clock. Between the two scans no delete
  request is sent, and no reaction of the store to a delete is used. When the store has no
  further answer, the loop is left waiting on that second scan.
\<close>

theorem no_expired_items_cycle:
  assumes "env w ''TABLE_NAME'' = Some tableName" and "tableName \<noteq> []"
    and "env w ''TTL_ATTRIBUTE'' = Some ttl" and "ttl \<noteq> []"
    and "scans w = r # rest"
    and "r (scanInput tableName ttl (clock w)) = Inr response"
    and "httpStatusCode response = Some 200"
    and "Items response = None \<or> Items response = Some []"
  shows "(fst (getExpiredItemKeys keySchema w) = Returned None
          \<or> fst (getExpiredItemKeys keySchema w) = Returned (Some []))
    \<and> main_loop keySchema w =
        main_loop keySchema
          (w\<lparr>scans := rest, clock := clock w + 5000,
             trace := trace w @
               [Log [Str ''Scanning for new expired DynamoDB items...''],
                Sent (ScanCommand (scanInput tableName ttl (clock w)))]
               @ (if Items response = None then [Log [Str ''No expired items to delete'']] else [])
               @ [Log [Str ''Sleeping for 5 seconds...''], Sleep 5]\<rparr>)
    \<and> (\<exists>later. trace (snd (main_loop keySchema w)) =
           trace w @
             [Log [Str ''Scanning for new expired DynamoDB items...''],
              Sent (ScanCommand (scanInput tableName ttl (clock w)))]
             @ (if Items response = None then [Log [Str ''No expired items to delete'']] else [])
             @ [Log [Str ''Sleeping for 5 seconds...''], Sleep 5,
                Log [Str ''Scanning for new expired DynamoDB items...''],
                Sent (ScanCommand (scanInput tableName ttl (clock w + 5000)))]
             @ later)
    \<and> (rest = [] \<longrightarrow>
          main_loop keySchema w =
            (Pending,
             w\<lparr>scans := [], clock := clock w + 5000,
               trace := trace w @
                 [Log [Str ''Scanning for new expired DynamoDB items...''],
                  Sent (ScanCommand (scanInput tableName ttl (clock w)))]
                 @ (if Items response = None then [Log [Str ''No expired items to delete'']] else [])
                 @ [Log [Str ''Sleeping for 5 seconds...''], Sleep 5,
                    Log [Str ''Scanning for new expired DynamoDB items...''],
                    Sent (ScanCommand (scanInput tableName ttl (clock w + 5000)))]\<rparr>))"
proof (intro conjI impI)
  let ?cycle = "[Log [Str ''Scanning for new expired DynamoDB items...''],
                Sent (ScanCommand (scanInput tableName ttl (clock w)))]
               @ (if Items response = None then [Log [Str ''No expired items to delete'']] else [])
               @ [Log [Str ''Sleeping for 5 seconds...''], Sleep 5]"
  let ?next = "w\<lparr>scans := rest, clock := clock w + 5000, trace := trace w @ ?cycle\<rparr>"
  have "getExpiredItemKeys keySchema w =
        (Returned (map_option (map (toKeyRecord keySchema)) (Items response)),
         w\<lparr>scans := rest, trace := trace w @ [Sent (ScanCommand (scanInput tableName ttl (clock w)))]\<rparr>)"
    using assms getExpiredItemKeys_answered [of w tableName ttl r rest response keySchema]
    by simp
  with assms(8) show "fst (getExpiredItemKeys keySchema w) = Returned None
          \<or> fst (getExpiredItemKeys keySchema w) = Returned (Some [])"
    by auto
  show step: "main_loop keySchema w = main_loop keySchema ?next"
    by (rule main_loop_idle_cycle [OF assms])
  from main_loop_begins [of ?next tableName ttl keySchema] assms(1-4)
  obtain later where "trace (snd (main_loop keySchema ?next)) =
      trace ?next @ [Log [Str ''Scanning for new expired DynamoDB items...''],
                     Sent (ScanCommand (scanInput tableName ttl (clock ?next)))] @ later"
    by auto
  with step have "trace (snd (main_loop keySchema w)) =
           trace w @
             [Log [Str ''Scanning for new expired DynamoDB items...''],
              Sent (ScanCommand (scanInput tableName ttl (clock w)))]
             @ (if Items response = None then [Log [Str ''No expired items to delete'']] else [])
             @ [Log [Str ''Sleeping for 5 seconds...''], Sleep 5,
                Log [Str ''Scanning for new expired DynamoDB items...''],
                Sent (ScanCommand (scanInput tableName ttl (clock w + 5000)))]
             @ later"
    by simp
  then show "\<exists>later. trace (snd (main_loop keySchema w)) =
           trace w @
             [Log [Str ''Scanning for new expired DynamoDB items...''],
              Sent (ScanCommand (scanInput tableName ttl (clock w)))]
             @ (if Items response = None then [Log [Str ''No expired items to delete'']] else [])
             @ [Log [Str ''Sleeping for 5 seconds...''], Sleep 5,
                Log [Str ''Scanning for new expired DynamoDB items...''],
                Sent (ScanCommand (scanInput tableName ttl (clock w + 5000)))]
             @ later"
    by (rule exI)
  assume "rest = []"
  let ?w0 = "console_log [Str ''Scanning for new expired DynamoDB items...''] ?next"
  from \<open>rest = []\<close> assms(1-4)
  have "getExpiredItemKeys keySchema ?w0 =
      (Pending, ?w0\<lparr>trace := trace ?w0 @ [Sent (ScanCommand (scanInput tableName ttl (clock ?w0)))]\<rparr>)"
    by (intro getExpiredItemKeys_unanswered) (simp_all add: console_log_def)
  then have "main_loop keySchema ?next =
      (Pending, ?w0\<lparr>trace := trace ?w0 @ [Sent (ScanCommand (scanInput tableName ttl (clock ?w0)))]\<rparr>)"
    by (subst main_loop.simps) simp
  with step \<open>rest = []\<close> show "main_loop keySchema w =
            (Pending,
             w\<lparr>scans := [], clock := clock w + 5000,
               trace := trace w @
                 [Log [Str ''Scanning for new expired DynamoDB items...''],
                  Sent (ScanCommand (scanInput tableName ttl (clock w)))]
                 @ (if Items response = None then [Log [Str ''No expired items to delete'']] else [])
                 @ [Log [Str ''Sleeping for 5 seconds...''], Sleep 5,
                    Log [Str ''Scanning for new expired DynamoDB items...''],
                    Sent (ScanCommand (scanInput tableName ttl (clock w + 5000)))]\<rparr>)"
    by (simp add: console_log_def)
qed

theorem no_expired_items_cycle_witness:
  "fst (getExpiredItemKeys \<lparr>hash = Some ''id'', range = None\<rparr> idleWorld) = Returned None
   \<and> main_loop \<lparr>hash = Some ''id'', range = None\<rparr> idleWorld =
       (Pending,
        idleWorld\<lparr>scans := [], clock := 2005000,
          trace :=
            [Log [Str ''Scanning for new expired DynamoDB items...''],
             Sent (ScanCommand (scanInput ''ddb-l-ase2-ms-notifications'' ''Expires'' 2000000)),
             Log [Str ''No expired items to delete''],
             Log [Str ''Sleeping for 5 seconds...''],
             Sleep 5,
             Log [Str ''Scanning for new expired DynamoDB items...''],
             Sent (ScanCommand (scanInput ''ddb-l-ase2-ms-notifications'' ''Expires'' 2005000))]\<rparr>)"
proof -
  have h1: "env idleWorld ''TABLE_NAME'' = Some ''ddb-l-ase2-ms-notifications''"
    and h2: "''ddb-l-ase2-ms-notifications'' \<noteq> []"
    and h3: "env idleWorld ''TTL_ATTRIBUTE'' = Some ''Expires''"
    and h4: "''Expires'' \<noteq> []"
    and h5: "scans idleWorld = (\<lambda>input. Inr \<lparr>httpStatusCode = Some 200, Items = None\<rparr>) # []"
    and h6: "(\<lambda>input. Inr \<lparr>httpStatusCode = Some 200, Items = None\<rparr>)
               (scanInput ''ddb-l-ase2-ms-notifications'' ''Expires'' (clock idleWorld))
             = (Inr \<lparr>httpStatusCode = Some 200, Items = None\<rparr> :: error + ScanCommandOutput)"
    and h7: "httpStatusCode \<lparr>httpStatusCode = Some 200, Items = (None :: Item list option)\<rparr> = Some 200"
    and h8: "Items \<lparr>httpStatusCode = Some 200, Items = (None :: Item list option)\<rparr> = None
             \<or> Items \<lparr>httpStatusCode = Some 200, Items = (None :: Item list option)\<rparr> = Some []"
    by (simp_all add: idleWorld_def exampleEnv_def)
  note th = no_expired_items_cycle [OF h1 h2 h3 h4 h5 h6 h7 h8,
        of "\<lparr>hash = Some ''id'', range = None\<rparr>"]
  have run: "main_loop \<lparr>hash = Some ''id'', range = None\<rparr> idleWorld =
       (Pending,
        idleWorld\<lparr>scans := [], clock := 2005000,
          trace :=
            [Log [Str ''Scanning for new expired DynamoDB items...''],
             Sent (ScanCommand (scanInput ''ddb-l-ase2-ms-notifications'' ''Expires'' 2000000)),
             Log [Str ''No expired items to delete''],
             Log [Str ''Sleeping for 5 seconds...''],
             Sleep 5,
             Log [Str ''Scanning for new expired DynamoDB items...''],
             Sent (ScanCommand (scanInput ''ddb-l-ase2-ms-notifications'' ''Expires'' 2005000))]\<rparr>)"
    using th [THEN conjunct2, THEN conjunct2, THEN conjunct2]
    by (simp add: idleWorld_def)
  have "fst (getExpiredItemKeys \<lparr>hash = Some ''id'', range = None\<rparr> idleWorld) = Returned None"
    by (simp add: idleWorld_def getExpiredItemKeys_def exampleEnv_def
          getRequiredEnvironmentVariable_def send_Scan_def settle_def)
  with run show ?thesis
    by (intro conjI)
qed

section \<open>A table without a key schema\<close>

text \<open>
  Claim C9. When the store describes the table with status 200 but the description
  carries no key schema, \<^verbatim>\<open>getTableKeySchema\<close> throws a plain error. It is not a
  \<^verbatim>\<open>ResourceNotFoundException\<close>, so \<^verbatim>\<open>main\<close> does not retry: the process ends with that
  error after its single describe request, without sleeping.
\<close>

theorem missing_key_schema_is_fatal:
  assumes "env w ''AWS_ENDPOINT'' = Some ep" and "ep \<noteq> []"
    and "env w ''TABLE_NAME'' = Some tableName" and "tableName \<noteq> []"
    and "describes w = r # rest"
    and "r \<lparr>TableName = tableName\<rparr> = Inr response"
    and "httpStatusCode response = Some 200"
    and "Table response = Some table"
    and "KeySchema table = None"
  shows "getTableKeySchema w =
      (Threw (Error [Str (''No key schema defined on DynamoDB table '' @ quote),
                     Json_describe response, Str quote]),
       w\<lparr>describes := rest,
         trace := trace w @ [Sent (DescribeTableCommand \<lparr>TableName = tableName\<rparr>)]\<rparr>)
    \<and> Error [Str (''No key schema defined on DynamoDB table '' @ quote),
              Json_describe response, Str quote] \<noteq> ResourceNotFoundException
    \<and> program w =
      (Threw (Error [Str (''No key schema defined on DynamoDB table '' @ quote),
                     Json_describe response, Str quote]),
       w\<lparr>describes := rest,
         trace := trace w @ [Sent (DescribeTableCommand \<lparr>TableName = tableName\<rparr>)]\<rparr>)"
proof -
  let ?e = "Error [Str (''No key schema defined on DynamoDB table '' @ quote),
                   Json_describe response, Str quote]"
  let ?w' = "w\<lparr>describes := rest,
         trace := trace w @ [Sent (DescribeTableCommand \<lparr>TableName = tableName\<rparr>)]\<rparr>"
  have g: "getTableKeySchema w = (Threw ?e, ?w')"
    using assms getTableKeySchema_answered [of w tableName r rest response] by simp
  then have "main_resolve w = (Threw ?e, ?w')"
    by (rule main_resolve_settled) simp
  then have "main w = (Threw ?e, ?w')"
    by (simp add: main_def)
  with g assms(1,2) show ?thesis
    by (simp add: program_configured)
qed

theorem missing_key_schema_is_fatal_witness:
  "program noKeySchemaWorld =
     (Threw (Error [Str (''No key schema defined on DynamoDB table '' @ quote),
                    Json_describe noKeySchemaResponse, Str quote]),
      noKeySchemaWorld\<lparr>describes := [],
        trace := [Sent (DescribeTableCommand \<lparr>TableName = ''ddb-l-ase2-ms-notifications''\<rparr>)]\<rparr>)"
proof -
  have h1: "env noKeySchemaWorld ''AWS_ENDPOINT'' = Some ''http://localstack:4566''"
    and h2: "''http://localstack:4566'' \<noteq> []"
    and h3: "env noKeySchemaWorld ''TABLE_NAME'' = Some ''ddb-l-ase2-ms-notifications''"
    and h4: "''ddb-l-ase2-ms-notifications'' \<noteq> []"
    and h5: "describes noKeySchemaWorld = (\<lambda>input. Inr noKeySchemaResponse) # []"
    and h6: "(\<lambda>input. Inr noKeySchemaResponse) \<lparr>TableName = ''ddb-l-ase2-ms-notifications''\<rparr>
             = (Inr noKeySchemaResponse :: error + DescribeTableCommandOutput)"
    and h7: "httpStatusCode noKeySchemaResponse = Some 200"
    and h8: "Table noKeySchemaResponse = Some \<lparr>KeySchema = None, AttributeDefinitions = Some []\<rparr>"
    and h9: "KeySchema \<lparr>KeySchema = None, AttributeDefinitions = Some []\<rparr> = None"
    by (simp_all add: noKeySchemaWorld_def noKeySchemaResponse_def exampleEnv_def)
  show ?thesis
    using missing_key_schema_is_fatal [OF h1 h2 h3 h4 h5 h6 h7 h8 h9]
    by (simp add: noKeySchemaWorld_def)
qed

section \<open>Deleting a batch of keys\<close>

text \<open>
  Claim C3. Given N keys whose deletes the store accepts (status 200) one after the
  other, \<^verbatim>\<open>deleteItems\<close> returns after issuing exactly N delete requests, one per key, in
  the order of the list. If instead the store accepts the first k-1 deletes and answers
  the k-th with another status, \<^verbatim>\<open>deleteItems\<close> throws at that point: the trace holds the
  k deletes and nothing else, so the keys after the k-th are never attempted and nothing
  is sent to undo the deletes already made.
\<close>

theorem deleteItems_in_order:
  assumes "env w ''TABLE_NAME'' = Some tableName" and "tableName \<noteq> []"
    and "list_all2 (accepts tableName) ds succeeded"
  shows "(deletes w = ds @ later \<longrightarrow>
            deleteItems succeeded w =
              (Returned (),
               w\<lparr>deletes := later, trace := trace w @ concat (map (deletion tableName) succeeded)\<rparr>))
    \<and> (deletes w = ds @ d # later \<and> d \<lparr>TableName = tableName, Key = key\<rparr> = Inr out
         \<and> httpStatusCode out \<noteq> Some 200 \<longrightarrow>
            deleteItems (succeeded @ key # unattempted) w =
              (Threw (Error [Str (''Failed to delete DynamoDB item with key '' @ quote),
                             Json_record key, Str quote]),
               w\<lparr>deletes := later,
                 trace := trace w @ concat (map (deletion tableName) (succeeded @ [key]))\<rparr>))"
proof (intro conjI impI)
  assume "deletes w = ds @ later"
  from deleteItems_accepted [OF assms(3,1,2) this, of "[]"]
  show "deleteItems succeeded w =
      (Returned (), w\<lparr>deletes := later, trace := trace w @ concat (map (deletion tableName) succeeded)\<rparr>)"
    by simp
next
  assume a: "deletes w = ds @ d # later \<and> d \<lparr>TableName = tableName, Key = key\<rparr> = Inr out
         \<and> httpStatusCode out \<noteq> Some 200"
  let ?w1 = "w\<lparr>deletes := d # later, trace := trace w @ concat (map (deletion tableName) succeeded)\<rparr>"
  have "deleteItems (succeeded @ key # unattempted) w = deleteItems (key # unattempted) ?w1"
    using deleteItems_accepted [OF assms(3,1,2), of "d # later" "key # unattempted"] a by simp
  also have "\<dots> = (Threw (Error [Str (''Failed to delete DynamoDB item with key '' @ quote),
                             Json_record key, Str quote]),
               ?w1\<lparr>deletes := later, trace := trace ?w1 @ deletion tableName key\<rparr>)"
    using deleteItems_answered [of ?w1 tableName d later key out unattempted] assms(1,2) a
    by simp
  finally show "deleteItems (succeeded @ key # unattempted) w =
              (Threw (Error [Str (''Failed to delete DynamoDB item with key '' @ quote),
                             Json_record key, Str quote]),
               w\<lparr>deletes := later,
                 trace := trace w @ concat (map (deletion tableName) (succeeded @ [key]))\<rparr>)"
    by simp
qed

theorem deleteItems_in_order_witness:
  "deleteItems [keyA, keyB, keyC] acceptingWorld =
     (Returned (),
      acceptingWorld\<lparr>deletes := [],
        trace := deletion ''ddb-l-ase2-ms-notifications'' keyA
               @ deletion ''ddb-l-ase2-ms-notifications'' keyB
               @ deletion ''ddb-l-ase2-ms-notifications'' keyC\<rparr>)
   \<and> deleteItems [keyA, keyB, keyC] refusingWorld =
     (Threw (Error [Str (''Failed to delete DynamoDB item with key '' @ quote),
                    Json_record keyB, Str quote]),
      refusingWorld\<lparr>deletes := [accepted],
        trace := deletion ''ddb-l-ase2-ms-notifications'' keyA
               @ deletion ''ddb-l-ase2-ms-notifications'' keyB\<rparr>)"
proof -
  have e1: "env acceptingWorld ''TABLE_NAME'' = Some ''ddb-l-ase2-ms-notifications''"
    and e2: "env refusingWorld ''TABLE_NAME'' = Some ''ddb-l-ase2-ms-notifications''"
    and ne: "''ddb-l-ase2-ms-notifications'' \<noteq> []"
    and all: "list_all2 (accepts ''ddb-l-ase2-ms-notifications'')
                [accepted, accepted, accepted] [keyA, keyB, keyC]"
    and one: "list_all2 (accepts ''ddb-l-ase2-ms-notifications'') [accepted] [keyA]"
    and d1: "deletes acceptingWorld = [accepted, accepted, accepted] @ []"
    and d2: "deletes refusingWorld = [accepted] @ refused # [accepted]"
    and r: "refused \<lparr>TableName = ''ddb-l-ase2-ms-notifications'', Key = keyB\<rparr>
              = Inr \<lparr>httpStatusCode = Some 500\<rparr>"
    and st: "httpStatusCode \<lparr>httpStatusCode = Some 500\<rparr> \<noteq> Some 200"
    by (simp_all add: acceptingWorld_def refusingWorld_def exampleEnv_def accepts_def
          accepted_def refused_def)
  from deleteItems_in_order [OF e1 ne all, of "[]"] d1
  have "deleteItems [keyA, keyB, keyC] acceptingWorld =
     (Returned (),
      acceptingWorld\<lparr>deletes := [],
        trace := trace acceptingWorld @ concat (map (deletion ''ddb-l-ase2-ms-notifications'')
                   [keyA, keyB, keyC])\<rparr>)"
    by blast
  moreover from deleteItems_in_order [OF e2 ne one, of "[accepted]" refused keyB
      "\<lparr>httpStatusCode = Some 500\<rparr>" "[keyC]"] d2 r st
  have "deleteItems ([keyA] @ keyB # [keyC]) refusingWorld =
     (Threw (Error [Str (''Failed to delete DynamoDB item with key '' @ quote),
                    Json_record keyB, Str quote]),
      refusingWorld\<lparr>deletes := [accepted],
        trace := trace refusingWorld @ concat (map (deletion ''ddb-l-ase2-ms-notifications'')
                   ([keyA] @ [keyB]))\<rparr>)"
    by blast
  moreover have "trace acceptingWorld = []" and "trace refusingWorld = []"
    by (simp_all add: acceptingWorld_def refusingWorld_def)
  ultimately show ?thesis
    by simp
qed

section \<open>What a delete request carries\<close>

text \<open>
  Claim C4 says that the key sent for deletion holds the partition attribute, and the sort
  attribute exactly when the key schema declares one. The program evaluated on a table
  whose sort key is named \<^verbatim>\<open>__proto__\<close>: the assignment \<^verbatim>\<open>record[keySchema.range] = ...\<close>
  reaches the \<^verbatim>\<open>__proto__\<close> setter, so the record keeps the partition attribute as its
  only property and the item's value becomes its prototype; that is the key the loop
  sends in its delete request. And with a key schema that has no partition attribute the
  record's only property is named \<^verbatim>\<open>undefined\<close> and carries the item's attribute of that
  name.
\<close>

theorem sort_key_named_proto_is_dropped:
  "toKeyRecord protoKeys protoItem =
     \<lparr>own = [''id'' \<mapsto> Attribute (S ''a'')], prototype = Attribute (N 7)\<rparr>
   \<and> dom (own (toKeyRecord protoKeys protoItem)) = {''id''}
   \<and> deleteKeys (trace (snd (main_loop protoKeys protoWorld))) =
       [\<lparr>own = [''id'' \<mapsto> Attribute (S ''a'')], prototype = Attribute (N 7)\<rparr>]
   \<and> toKeyRecord \<lparr>hash = None, range = None\<rparr> undefinedItem =
       \<lparr>own = [''undefined'' \<mapsto> Attribute (S ''x'')], prototype = ObjectPrototype\<rparr>"
proof -
  have k: "toKeyRecord protoKeys protoItem =
     \<lparr>own = [''id'' \<mapsto> Attribute (S ''a'')], prototype = Attribute (N 7)\<rparr>"
    by (simp add: toKeyRecord_def protoKeys_def protoItem_def propertyKey_def getProperty_def
          assign_def)
  have d: "dom (own (toKeyRecord protoKeys protoItem)) = {''id''}"
    unfolding k by simp
  have run: "deleteKeys (trace (snd (main_loop protoKeys protoWorld))) = [toKeyRecord protoKeys protoItem]"
    by (simp add: main_loop.simps protoWorld_def getExpiredItemKeys_def
          exampleEnv_def getRequiredEnvironmentVariable_def send_Scan_def send_DeleteItem_def
          settle_def console_log_def sleep_def accepted_def)
  have u: "toKeyRecord \<lparr>hash = None, range = None\<rparr> undefinedItem =
       \<lparr>own = [''undefined'' \<mapsto> Attribute (S ''x'')], prototype = ObjectPrototype\<rparr>"
    by (simp add: toKeyRecord_def undefinedItem_def propertyKey_def getProperty_def)
  from k d run u show ?thesis
    by simp
qed

section \<open>Resolving the key schema\<close>

text \<open>
  Claim C5. Suppose the store answers the first n describe requests with
  \<^verbatim>\<open>ResourceNotFoundException\<close>. Then the loop at the start of \<^verbatim>\<open>main\<close> makes n attempts,
  each followed by a warning and a sleep of five seconds, and does not end during them:
  with no further answer it is still waiting on its next request. If the next answer
  describes the table (status 200, with a table and a key schema), the loop returns the
  key schema computed from that answer, having used exactly n+1 answers. If instead the
  next call of \<^verbatim>\<open>getTableKeySchema\<close> throws anything other than
  \<^verbatim>\<open>ResourceNotFoundException\<close>, \<^verbatim>\<open>main\<close> ends with that error at once: the world is the
  one the failing call left, with no warning and no sleep after it.
\<close>

theorem resolver_retries_while_not_found:
  assumes "env w ''TABLE_NAME'' = Some tableName" and "tableName \<noteq> []"
    and "\<forall>f\<in>set absent. f \<lparr>TableName = tableName\<rparr> = Inl ResourceNotFoundException"
  shows "(describes w = absent \<longrightarrow>
            main_resolve w =
              (Pending,
               w\<lparr>clock := clock w + 5000 * int (length absent), describes := [],
                 trace := trace w @ concat (replicate (length absent) (retry tableName))
                          @ [Sent (DescribeTableCommand \<lparr>TableName = tableName\<rparr>)]\<rparr>))
    \<and> (describes w = absent @ r # rest \<and> r \<lparr>TableName = tableName\<rparr> = Inr response
         \<and> httpStatusCode response = Some 200 \<and> Table response = Some table
         \<and> KeySchema table = Some entries \<longrightarrow>
            main_resolve w =
              (Returned (fst (keySchemaLoop (AttributeDefinitions table) entries
                   \<lparr>hash = None, range = None\<rparr>
                   (w\<lparr>clock := clock w + 5000 * int (length absent), describes := rest,
                      trace := trace w @ concat (replicate (length absent) (retry tableName))
                               @ [Sent (DescribeTableCommand \<lparr>TableName = tableName\<rparr>)]\<rparr>))),
               snd (keySchemaLoop (AttributeDefinitions table) entries
                   \<lparr>hash = None, range = None\<rparr>
                   (w\<lparr>clock := clock w + 5000 * int (length absent), describes := rest,
                      trace := trace w @ concat (replicate (length absent) (retry tableName))
                               @ [Sent (DescribeTableCommand \<lparr>TableName = tableName\<rparr>)]\<rparr>))))
    \<and> (describes w = absent @ rest
         \<and> getTableKeySchema
               (w\<lparr>clock := clock w + 5000 * int (length absent), describes := rest,
                  trace := trace w @ concat (replicate (length absent) (retry tableName))\<rparr>)
             = (Threw e, w')
         \<and> e \<noteq> ResourceNotFoundException \<longrightarrow>
            main_resolve w = (Threw e, w') \<and> main w = (Threw e, w'))"
proof (intro conjI impI)
  assume d: "describes w = absent"
  let ?wn = "w\<lparr>clock := clock w + 5000 * int (length absent), describes := [],
               trace := trace w @ concat (replicate (length absent) (retry tableName))\<rparr>"
  have "main_resolve w = main_resolve ?wn"
    using main_resolve_retries [OF assms(3,1,2), of "[]"] d by simp
  moreover have "getTableKeySchema ?wn =
      (Pending, ?wn\<lparr>trace := trace ?wn @ [Sent (DescribeTableCommand \<lparr>TableName = tableName\<rparr>)]\<rparr>)"
    using assms(1,2) by (intro getTableKeySchema_unanswered) simp_all
  then have "main_resolve ?wn =
      (Pending, ?wn\<lparr>trace := trace ?wn @ [Sent (DescribeTableCommand \<lparr>TableName = tableName\<rparr>)]\<rparr>)"
    by (rule main_resolve_settled) simp
  ultimately show "main_resolve w =
              (Pending,
               w\<lparr>clock := clock w + 5000 * int (length absent), describes := [],
                 trace := trace w @ concat (replicate (length absent) (retry tableName))
                          @ [Sent (DescribeTableCommand \<lparr>TableName = tableName\<rparr>)]\<rparr>)"
    by simp
next
  assume a: "describes w = absent @ r # rest \<and> r \<lparr>TableName = tableName\<rparr> = Inr response
         \<and> httpStatusCode response = Some 200 \<and> Table response = Some table
         \<and> KeySchema table = Some entries"
  let ?wn = "w\<lparr>clock := clock w + 5000 * int (length absent), describes := r # rest,
               trace := trace w @ concat (replicate (length absent) (retry tableName))\<rparr>"
  let ?K = "keySchemaLoop (AttributeDefinitions table) entries \<lparr>hash = None, range = None\<rparr>
              (?wn\<lparr>describes := rest,
                 trace := trace ?wn @ [Sent (DescribeTableCommand \<lparr>TableName = tableName\<rparr>)]\<rparr>)"
  have "main_resolve w = main_resolve ?wn"
    using main_resolve_retries [OF assms(3,1,2), of "r # rest"] a by simp
  moreover have "getTableKeySchema ?wn = (Returned (fst ?K), snd ?K)"
    using assms(1,2) a getTableKeySchema_answered [of ?wn tableName r rest response]
    by (simp add: case_prod_beta)
  then have "main_resolve ?wn = (Returned (fst ?K), snd ?K)"
    by (rule main_resolve_settled) simp
  ultimately show "main_resolve w =
              (Returned (fst (keySchemaLoop (AttributeDefinitions table) entries
                   \<lparr>hash = None, range = None\<rparr>
                   (w\<lparr>clock := clock w + 5000 * int (length absent), describes := rest,
                      trace := trace w @ concat (replicate (length absent) (retry tableName))
                               @ [Sent (DescribeTableCommand \<lparr>TableName = tableName\<rparr>)]\<rparr>))),
               snd (keySchemaLoop (AttributeDefinitions table) entries
                   \<lparr>hash = None, range = None\<rparr>
                   (w\<lparr>clock := clock w + 5000 * int (length absent), describes := rest,
                      trace := trace w @ concat (replicate (length absent) (retry tableName))
                               @ [Sent (DescribeTableCommand \<lparr>TableName = tableName\<rparr>)]\<rparr>)))"
    by simp
next
  assume a: "describes w = absent @ rest
         \<and> getTableKeySchema
               (w\<lparr>clock := clock w + 5000 * int (length absent), describes := rest,
                  trace := trace w @ concat (replicate (length absent) (retry tableName))\<rparr>)
             = (Threw e, w')
         \<and> e \<noteq> ResourceNotFoundException"
  let ?wn = "w\<lparr>clock := clock w + 5000 * int (length absent), describes := rest,
               trace := trace w @ concat (replicate (length absent) (retry tableName))\<rparr>"
  have "main_resolve w = main_resolve ?wn"
    using main_resolve_retries [OF assms(3,1,2), of rest] a by simp
  moreover from a have "getTableKeySchema ?wn = (Threw e, w')" by simp
  then have "main_resolve ?wn = (Threw e, w')"
    by (rule main_resolve_settled) (use a in simp)
  ultimately show r: "main_resolve w = (Threw e, w')" by simp
  then show "main w = (Threw e, w')"
    by (simp add: main_def)
qed

theorem resolver_retries_while_not_found_witness:
  "main_resolve lateTableWorld =
     (Returned \<lparr>hash = Some ''id'', range = None\<rparr>,
      lateTableWorld\<lparr>clock := 2010000, describes := [],
        trace := retry ''ddb-l-ase2-ms-notifications'' @ retry ''ddb-l-ase2-ms-notifications''
                 @ [Sent (DescribeTableCommand \<lparr>TableName = ''ddb-l-ase2-ms-notifications''\<rparr>)]\<rparr>)
   \<and> main brokenStoreWorld =
     (Threw (ServiceException ''InternalServerError''),
      brokenStoreWorld\<lparr>clock := 2005000, describes := [],
        trace := retry ''ddb-l-ase2-ms-notifications''
                 @ [Sent (DescribeTableCommand \<lparr>TableName = ''ddb-l-ase2-ms-notifications''\<rparr>)]\<rparr>)"
proof -
  let ?tn = "''ddb-l-ase2-ms-notifications''"
  have e1: "env lateTableWorld ''TABLE_NAME'' = Some ?tn"
    and e2: "env brokenStoreWorld ''TABLE_NAME'' = Some ?tn"
    and ne: "?tn \<noteq> []"
    and a2: "\<forall>f\<in>set [notFound, notFound]. f \<lparr>TableName = ?tn\<rparr> = Inl ResourceNotFoundException"
    and a1: "\<forall>f\<in>set [notFound]. f \<lparr>TableName = ?tn\<rparr> = Inl ResourceNotFoundException"
    by (simp_all add: lateTableWorld_def brokenStoreWorld_def exampleEnv_def notFound_def)
  have late: "describes lateTableWorld = [notFound, notFound] @ (\<lambda>input. Inr simpleTable) # []
      \<and> (\<lambda>input. Inr simpleTable) \<lparr>TableName = ?tn\<rparr> = (Inr simpleTable :: error + DescribeTableCommandOutput)
      \<and> httpStatusCode simpleTable = Some 200
      \<and> Table simpleTable = Some
           \<lparr>KeySchema = Some [\<lparr>AttributeName = Some ''id'', KeyType = Some ''HASH''\<rparr>],
            AttributeDefinitions = Some [\<lparr>AttributeName = Some ''id'', AttributeType = Some ''S''\<rparr>]\<rparr>
      \<and> KeySchema \<lparr>KeySchema = Some [\<lparr>AttributeName = Some ''id'', KeyType = Some ''HASH''\<rparr>],
            AttributeDefinitions = Some [\<lparr>AttributeName = Some ''id'', AttributeType = Some ''S''\<rparr>]\<rparr>
          = Some [\<lparr>AttributeName = Some ''id'', KeyType = Some ''HASH''\<rparr>]"
    by (simp add: lateTableWorld_def simpleTable_def)
  have broken: "describes brokenStoreWorld = [notFound] @ [\<lambda>input. Inl (ServiceException ''InternalServerError'')]
      \<and> getTableKeySchema
            (brokenStoreWorld\<lparr>clock := clock brokenStoreWorld + 5000 * int (length [notFound]),
               describes := [\<lambda>input. Inl (ServiceException ''InternalServerError'')],
               trace := trace brokenStoreWorld @ concat (replicate (length [notFound]) (retry ?tn))\<rparr>)
          = (Threw (ServiceException ''InternalServerError''),
             brokenStoreWorld\<lparr>clock := 2005000, describes := [],
               trace := retry ?tn @ [Sent (DescribeTableCommand \<lparr>TableName = ?tn\<rparr>)]\<rparr>)
      \<and> ServiceException ''InternalServerError'' \<noteq> ResourceNotFoundException"
    by (simp add: brokenStoreWorld_def getTableKeySchema_def exampleEnv_def
          getRequiredEnvironmentVariable_def send_DescribeTable_def settle_def)
  note l = resolver_retries_while_not_found [OF e1 ne a2, THEN conjunct2, THEN conjunct1, THEN mp, OF late]
  note b = resolver_retries_while_not_found [OF e2 ne a1, THEN conjunct2, THEN conjunct2, THEN mp,
      OF broken, THEN conjunct2]
  have k: "keySchemaLoop (Some [\<lparr>AttributeName = Some ''id'', AttributeType = Some ''S''\<rparr>])
           [\<lparr>AttributeName = Some ''id'', KeyType = Some ''HASH''\<rparr>]
           \<lparr>hash = None, range = None\<rparr> v = (\<lparr>hash = Some ''id'', range = None\<rparr>, v)" for v
    by (simp add: KeyType_HASH_def KeyType_RANGE_def)
  have "main_resolve lateTableWorld =
     (Returned \<lparr>hash = Some ''id'', range = None\<rparr>,
      lateTableWorld\<lparr>clock := 2010000, describes := [],
        trace := retry ?tn @ retry ?tn @ [Sent (DescribeTableCommand \<lparr>TableName = ?tn\<rparr>)]\<rparr>)"
    unfolding l k by (simp add: lateTableWorld_def numeral_2_eq_2 KeyType_HASH_def KeyType_RANGE_def)
  moreover note b
  ultimately show ?thesis
    by (intro conjI)
qed

section \<open>Responses without status 200\<close>

text \<open>
  Claim C6. When the store answers a scan, \<^verbatim>\<open>getExpiredItemKeys\<close> throws if and only if the
  status of the response is not 200, and then the loop ends with that error right after
  the scan. When the store answers a delete, \<^verbatim>\<open>deleteItems\<close> throws at that key if and only
  if the status is not 200; with status 200 it goes on to the next key. An error thrown by
  \<^verbatim>\<open>deleteItems\<close> ends the loop, and an error that ends the loop ends \<^verbatim>\<open>main\<close>: nothing
  catches it.
\<close>

theorem nonsuccess_status_is_fatal:
  assumes "env w ''TABLE_NAME'' = Some tableName" and "tableName \<noteq> []"
  shows "(env w ''TTL_ATTRIBUTE'' = Some ttl \<and> ttl \<noteq> [] \<and> scans w = r # rest
          \<and> r (scanInput tableName ttl (clock w)) = Inr response \<longrightarrow>
            ((\<exists>e w'. getExpiredItemKeys keySchema w = (Threw e, w'))
               \<longleftrightarrow> httpStatusCode response \<noteq> Some 200)
          \<and> (httpStatusCode response \<noteq> Some 200 \<longrightarrow>
                main_loop keySchema w =
                  (Threw (Error [Str (''Failed to scan DynamoDB items '' @ quote),
                                 Json_scan response, Str quote]),
                   w\<lparr>scans := rest,
                     trace := trace w @
                       [Log [Str ''Scanning for new expired DynamoDB items...''],
                        Sent (ScanCommand (scanInput tableName ttl (clock w)))]\<rparr>)))
    \<and> (deletes w = d # later \<and> d \<lparr>TableName = tableName, Key = key\<rparr> = Inr out \<longrightarrow>
            ((\<exists>e w'. deleteItems [key] w = (Threw e, w')) \<longleftrightarrow> httpStatusCode out \<noteq> Some 200)
          \<and> (httpStatusCode out \<noteq> Some 200 \<longrightarrow>
                deleteItems (key # keys) w =
                  (Threw (Error [Str (''Failed to delete DynamoDB item with key '' @ quote),
                                 Json_record key, Str quote]),
                   w\<lparr>deletes := later, trace := trace w @ deletion tableName key\<rparr>))
          \<and> (httpStatusCode out = Some 200 \<longrightarrow>
                deleteItems (key # keys) w =
                  deleteItems keys (w\<lparr>deletes := later, trace := trace w @ deletion tableName key\<rparr>)))
    \<and> (getExpiredItemKeys keySchema (console_log [Str ''Scanning for new expired DynamoDB items...''] w)
            = (Returned (Some expired), w1)
         \<and> deleteItems expired w1 = (Threw e1, w2) \<longrightarrow>
            main_loop keySchema w = (Threw e1, w2))
    \<and> (main_resolve w = (Returned keySchema, w0) \<and> main_loop keySchema w0 = (Threw e2, w3) \<longrightarrow>
            main w = (Threw e2, w3))"
proof (intro conjI impI)
  assume a: "env w ''TTL_ATTRIBUTE'' = Some ttl \<and> ttl \<noteq> [] \<and> scans w = r # rest
          \<and> r (scanInput tableName ttl (clock w)) = Inr response"
  from a assms getExpiredItemKeys_answered [of w tableName ttl r rest response keySchema]
  show "(\<exists>e w'. getExpiredItemKeys keySchema w = (Threw e, w'))
               \<longleftrightarrow> httpStatusCode response \<noteq> Some 200"
    by simp
  assume bad: "httpStatusCode response \<noteq> Some 200"
  let ?w0 = "console_log [Str ''Scanning for new expired DynamoDB items...''] w"
  from a assms bad getExpiredItemKeys_answered [of ?w0 tableName ttl r rest response keySchema]
  have "getExpiredItemKeys keySchema ?w0 =
      (Threw (Error [Str (''Failed to scan DynamoDB items '' @ quote), Json_scan response, Str quote]),
       ?w0\<lparr>scans := rest,
         trace := trace ?w0 @ [Sent (ScanCommand (scanInput tableName ttl (clock w)))]\<rparr>)"
    by (simp add: console_log_def)
  then show "main_loop keySchema w =
                  (Threw (Error [Str (''Failed to scan DynamoDB items '' @ quote),
                                 Json_scan response, Str quote]),
                   w\<lparr>scans := rest,
                     trace := trace w @
                       [Log [Str ''Scanning for new expired DynamoDB items...''],
                        Sent (ScanCommand (scanInput tableName ttl (clock w)))]\<rparr>)"
    by (subst main_loop.simps) (simp add: console_log_def)
next
  assume a: "deletes w = d # later \<and> d \<lparr>TableName = tableName, Key = key\<rparr> = Inr out"
  from a assms deleteItems_answered [of w tableName d later key out "[]"]
  show "(\<exists>e w'. deleteItems [key] w = (Threw e, w')) \<longleftrightarrow> httpStatusCode out \<noteq> Some 200"
    by simp
next
  assume a: "deletes w = d # later \<and> d \<lparr>TableName = tableName, Key = key\<rparr> = Inr out"
    and "httpStatusCode out \<noteq> Some 200"
  with assms deleteItems_answered [of w tableName d later key out keys]
  show "deleteItems (key # keys) w =
                  (Threw (Error [Str (''Failed to delete DynamoDB item with key '' @ quote),
                                 Json_record key, Str quote]),
                   w\<lparr>deletes := later, trace := trace w @ deletion tableName key\<rparr>)"
    by simp
next
  assume a: "deletes w = d # later \<and> d \<lparr>TableName = tableName, Key = key\<rparr> = Inr out"
    and "httpStatusCode out = Some 200"
  with assms deleteItems_answered [of w tableName d later key out keys]
  show "deleteItems (key # keys) w =
                  deleteItems keys (w\<lparr>deletes := later, trace := trace w @ deletion tableName key\<rparr>)"
    by simp
next
  assume "getExpiredItemKeys keySchema (console_log [Str ''Scanning for new expired DynamoDB items...''] w)
            = (Returned (Some expired), w1)
         \<and> deleteItems expired w1 = (Threw e1, w2)"
  then show "main_loop keySchema w = (Threw e1, w2)"
    by (subst main_loop.simps) simp
next
  assume "main_resolve w = (Returned keySchema, w0) \<and> main_loop keySchema w0 = (Threw e2, w3)"
  then show "main w = (Threw e2, w3)"
    by (simp add: main_def)
qed

theorem nonsuccess_status_is_fatal_witness:
  "main_loop \<lparr>hash = Some ''id'', range = None\<rparr> failedScanWorld =
     (Threw (Error [Str (''Failed to scan DynamoDB items '' @ quote), Json_scan failedScan, Str quote]),
      failedScanWorld\<lparr>scans := [],
        trace := [Log [Str ''Scanning for new expired DynamoDB items...''],
                  Sent (ScanCommand (scanInput ''ddb-l-ase2-ms-notifications'' ''Expires'' 2000000))]\<rparr>)
   \<and> deleteItems [keyA, keyB] refusingWorld =
       deleteItems [keyB]
         (refusingWorld\<lparr>deletes := [refused, accepted],
            trace := deletion ''ddb-l-ase2-ms-notifications'' keyA\<rparr>)
   \<and> fst (main failedDeleteWorld) =
       Threw (Error [Str (''Failed to delete DynamoDB item with key '' @ quote),
                     Json_record keyA, Str quote])"
proof -
  let ?tn = "''ddb-l-ase2-ms-notifications''"
  let ?ks = "\<lparr>hash = Some ''id'', range = None\<rparr>"
  have e1: "env failedScanWorld ''TABLE_NAME'' = Some ?tn"
    and e2: "env refusingWorld ''TABLE_NAME'' = Some ?tn"
    and e3: "env failedDeleteWorld ''TABLE_NAME'' = Some ?tn"
    and ne: "?tn \<noteq> []"
    by (simp_all add: failedScanWorld_def refusingWorld_def failedDeleteWorld_def exampleEnv_def)
  have s: "env failedScanWorld ''TTL_ATTRIBUTE'' = Some ''Expires'' \<and> ''Expires'' \<noteq> []
      \<and> scans failedScanWorld = (\<lambda>input. Inr failedScan) # []
      \<and> (\<lambda>input. Inr failedScan) (scanInput ?tn ''Expires'' (clock failedScanWorld))
          = (Inr failedScan :: error + ScanCommandOutput)"
    and sbad: "httpStatusCode failedScan \<noteq> Some 200"
    by (simp_all add: failedScanWorld_def exampleEnv_def failedScan_def)
  have d: "deletes refusingWorld = accepted # [refused, accepted]
      \<and> accepted \<lparr>TableName = ?tn, Key = keyA\<rparr> = Inr \<lparr>httpStatusCode = Some 200\<rparr>"
    and dok: "httpStatusCode \<lparr>httpStatusCode = Some 200\<rparr> = Some 200"
    by (simp_all add: refusingWorld_def accepted_def)
  have run: "main_resolve failedDeleteWorld = (Returned ?ks, snd (main_resolve failedDeleteWorld))
      \<and> main_loop ?ks (snd (main_resolve failedDeleteWorld)) =
          (Threw (Error [Str (''Failed to delete DynamoDB item with key '' @ quote),
                         Json_record keyA, Str quote]),
           snd (main_loop ?ks (snd (main_resolve failedDeleteWorld))))"
    by (simp add: prod_eq_iff main_resolve.simps main_loop.simps failedDeleteWorld_def
          getTableKeySchema_def getExpiredItemKeys_def exampleEnv_def
          getRequiredEnvironmentVariable_def send_DescribeTable_def send_Scan_def
          send_DeleteItem_def settle_def console_log_def sleep_def simpleTable_def
          KeyType_HASH_def KeyType_RANGE_def store_scan_def scanInput_def holds_def
          scenarioTable_def epoch_seconds toKeyRecord_def propertyKey_def getProperty_def
          refused_def keyA_def)
  note th1 = nonsuccess_status_is_fatal [OF e1 ne, THEN conjunct1, THEN mp, OF s, THEN conjunct2,
      THEN mp, OF sbad, of ?ks]
  note th2 = nonsuccess_status_is_fatal [OF e2 ne, THEN conjunct2, THEN conjunct1, THEN mp, OF d,
      THEN conjunct2, THEN conjunct2, THEN mp, OF dok, of "[keyB]"]
  note th3 = nonsuccess_status_is_fatal [OF e3 ne, THEN conjunct2, THEN conjunct2, THEN conjunct2,
      THEN mp, OF run]
  from th1 have "main_loop ?ks failedScanWorld =
     (Threw (Error [Str (''Failed to scan DynamoDB items '' @ quote), Json_scan failedScan, Str quote]),
      failedScanWorld\<lparr>scans := [],
        trace := [Log [Str ''Scanning for new expired DynamoDB items...''],
                  Sent (ScanCommand (scanInput ?tn ''Expires'' 2000000))]\<rparr>)"
    by (simp add: failedScanWorld_def)
  moreover from th2 have "deleteItems [keyA, keyB] refusingWorld =
       deleteItems [keyB]
         (refusingWorld\<lparr>deletes := [refused, accepted], trace := deletion ?tn keyA\<rparr>)"
    by (simp add: refusingWorld_def)
  moreover from th3 have "fst (main failedDeleteWorld) =
       Threw (Error [Str (''Failed to delete DynamoDB item with key '' @ quote),
                     Json_record keyA, Str quote])"
    by simp
  ultimately show ?thesis
    by (intro conjI)
qed

section \<open>Required configuration\<close>




section \<open>The key schema that is resolved\<close>

text \<open>
  Claim C2 says that every successful resolution yields a partition attribute, and both
  attributes for a composite key. A described table whose key schema is the empty list
  yields a key schema with neither, and \<^verbatim>\<open>main\<close> goes on to scan with it; a composite key
  whose sort attribute has no attribute definition yields no sort attribute.
\<close>

theorem partition_attribute_counterexample:
  "fst (getTableKeySchema keylessWorld) = Returned \<lparr>hash = None, range = None\<rparr>
   \<and> fst (main keylessWorld) = Pending
   \<and> scansSent (trace (snd (main keylessWorld)))
       = [scanInput ''ddb-l-ase2-ms-notifications'' ''Expires'' 2000000]
   \<and> fst (getTableKeySchema untypedSortWorld) = Returned \<lparr>hash = Some ''id'', range = None\<rparr>"
  by (simp add: main_def main_resolve.simps main_loop.simps keylessWorld_def untypedSortWorld_def
        keylessTable_def untypedSortTable_def exampleEnv_def
        getTableKeySchema_def getExpiredItemKeys_def
        getRequiredEnvironmentVariable_def send_DescribeTable_def send_Scan_def
        settle_def console_log_def console_warn_def sleep_def
        KeyType_HASH_def KeyType_RANGE_def)

text \<open>
  Claim C2, as amended. Suppose the store describes the table, at once or after any number
  of not-found answers, with a key schema whose entries are all named and one of whose
  HASH entries has a typed attribute definition. Then the resolution returns a key schema,
  having logged a warning for every entry it skipped (one without a typed attribute
  definition, or with a key type other than HASH and RANGE). The key schema holds a
  partition attribute; it holds a sort attribute exactly when some entry of key type RANGE
  has a typed attribute definition; and an attribute it holds is the name of such an
  entry. So a composite key with both attributes defined gives both, and a simple key
  gives no sort attribute. The partition attribute is resolved before any scan: no scan
  has been sent when the resolution returns, and from there \<^verbatim>\<open>main\<close> is its scan loop run
  with that key schema.
\<close>

theorem key_schema_of_typed_entries:
  assumes "env w ''TABLE_NAME'' = Some tableName" and "tableName \<noteq> []"
    and "describes w = absent @ r # rest"
    and "\<forall>f\<in>set absent. f \<lparr>TableName = tableName\<rparr> = Inl ResourceNotFoundException"
    and "r \<lparr>TableName = tableName\<rparr> = Inr response"
    and "httpStatusCode response = Some 200"
    and "Table response = Some table"
    and "KeySchema table = Some entries"
    and "\<forall>item\<in>set entries. AttributeName item \<noteq> None"
    and "\<exists>item\<in>set entries. typed (AttributeDefinitions table) item
                              \<and> KeyType item = Some KeyType_HASH"
  shows "\<exists>keySchema.
      getTableKeySchema
        (w\<lparr>clock := clock w + 5000 * int (length absent), describes := r # rest,
           trace := trace w @ concat (replicate (length absent) (retry tableName))\<rparr>)
        = (Returned keySchema,
           w\<lparr>clock := clock w + 5000 * int (length absent), describes := rest,
             trace := trace w @ concat (replicate (length absent) (retry tableName))
                      @ [Sent (DescribeTableCommand \<lparr>TableName = tableName\<rparr>)]
                      @ concat (map (warning (AttributeDefinitions table)) entries)\<rparr>)
      \<and> main_resolve w
        = (Returned keySchema,
           w\<lparr>clock := clock w + 5000 * int (length absent), describes := rest,
             trace := trace w @ concat (replicate (length absent) (retry tableName))
                      @ [Sent (DescribeTableCommand \<lparr>TableName = tableName\<rparr>)]
                      @ concat (map (warning (AttributeDefinitions table)) entries)\<rparr>)
      \<and> (range keySchema \<noteq> None \<longleftrightarrow>
           (\<exists>item\<in>set entries. typed (AttributeDefinitions table) item
                                 \<and> KeyType item = Some KeyType_RANGE))
      \<and> (range keySchema \<noteq> None \<longrightarrow>
           (\<exists>item\<in>set entries. typed (AttributeDefinitions table) item
                                 \<and> KeyType item = Some KeyType_RANGE
                                 \<and> AttributeName item = range keySchema))
      \<and> (hash keySchema \<noteq> None \<longrightarrow>
           (\<exists>item\<in>set entries. typed (AttributeDefinitions table) item
                                 \<and> KeyType item = Some KeyType_HASH
                                 \<and> AttributeName item = hash keySchema))
      \<and> hash keySchema \<noteq> None
      \<and> scansSent
           (trace w @ concat (replicate (length absent) (retry tableName))
            @ [Sent (DescribeTableCommand \<lparr>TableName = tableName\<rparr>)]
            @ concat (map (warning (AttributeDefinitions table)) entries))
          = scansSent (trace w)
      \<and> main w =
          main_loop keySchema
            (w\<lparr>clock := clock w + 5000 * int (length absent), describes := rest,
               trace := trace w @ concat (replicate (length absent) (retry tableName))
                        @ [Sent (DescribeTableCommand \<lparr>TableName = tableName\<rparr>)]
                        @ concat (map (warning (AttributeDefinitions table)) entries)\<rparr>)"
proof -
  let ?wn = "w\<lparr>clock := clock w + 5000 * int (length absent), describes := r # rest,
               trace := trace w @ concat (replicate (length absent) (retry tableName))\<rparr>"
  let ?w1 = "?wn\<lparr>describes := rest,
               trace := trace ?wn @ [Sent (DescribeTableCommand \<lparr>TableName = tableName\<rparr>)]\<rparr>"
  let ?K = "keySchemaLoop (AttributeDefinitions table) entries \<lparr>hash = None, range = None\<rparr> ?w1"
  let ?w' = "w\<lparr>clock := clock w + 5000 * int (length absent), describes := rest,
             trace := trace w @ concat (replicate (length absent) (retry tableName))
                      @ [Sent (DescribeTableCommand \<lparr>TableName = tableName\<rparr>)]
                      @ concat (map (warning (AttributeDefinitions table)) entries)\<rparr>"
  let ?H = "filter (\<lambda>item. typed (AttributeDefinitions table) item \<and> KeyType item = Some KeyType_HASH) entries"
  let ?R = "filter (\<lambda>item. typed (AttributeDefinitions table) item \<and> KeyType item = Some KeyType_RANGE) entries"
  have w': "snd ?K = ?w'"
    by (simp add: keySchemaLoop_world)
  have "getTableKeySchema ?wn = (Returned (fst ?K), snd ?K)"
    using assms getTableKeySchema_answered [of ?wn tableName r rest response]
    by (simp add: case_prod_beta)
  with w' have g: "getTableKeySchema ?wn = (Returned (fst ?K), ?w')"
    by simp
  have "main_resolve w = main_resolve ?wn"
    using main_resolve_retries [OF assms(4,1,2,3)] .
  moreover from g have "main_resolve ?wn = (Returned (fst ?K), ?w')"
    by (rule main_resolve_settled) simp
  ultimately have m: "main_resolve w = (Returned (fst ?K), ?w')"
    by simp
  have h: "hash (fst ?K) = (if ?H = [] then None else AttributeName (last ?H))"
    by (simp add: keySchemaLoop_hash split: list.splits)
  have r: "range (fst ?K) = (if ?R = [] then None else AttributeName (last ?R))"
    by (simp add: keySchemaLoop_range split: list.splits)
  have lh: "?H \<noteq> [] \<Longrightarrow> last ?H \<in> set ?H" and lr: "?R \<noteq> [] \<Longrightarrow> last ?R \<in> set ?R"
    by (rule last_in_set, assumption)+
  have h1: "(\<exists>item\<in>set entries. typed (AttributeDefinitions table) item \<and> KeyType item = Some KeyType_HASH)
      \<longrightarrow> hash (fst ?K) \<noteq> None"
  proof
    assume "\<exists>item\<in>set entries. typed (AttributeDefinitions table) item \<and> KeyType item = Some KeyType_HASH"
    then have ne: "?H \<noteq> []"
      by (auto simp: filter_empty_conv)
    with lh assms(9) have "AttributeName (last ?H) \<noteq> None" by auto
    with ne show "hash (fst ?K) \<noteq> None"
      unfolding h by simp
  qed
  have r1: "range (fst ?K) \<noteq> None \<longleftrightarrow>
      (\<exists>item\<in>set entries. typed (AttributeDefinitions table) item \<and> KeyType item = Some KeyType_RANGE)"
  proof (cases "?R = []")
    case True
    then show ?thesis
      unfolding r by (auto simp: filter_empty_conv)
  next
    case False
    with lr assms(9) have "AttributeName (last ?R) \<noteq> None" by auto
    moreover from False have "\<exists>item\<in>set entries. typed (AttributeDefinitions table) item
        \<and> KeyType item = Some KeyType_RANGE"
      by (auto simp: filter_empty_conv)
    ultimately show ?thesis
      unfolding r using False by simp
  qed
  have h2: "hash (fst ?K) \<noteq> None \<longrightarrow>
      (\<exists>item\<in>set entries. typed (AttributeDefinitions table) item \<and> KeyType item = Some KeyType_HASH
         \<and> AttributeName item = hash (fst ?K))"
  proof (cases "?H = []")
    case True
    then show ?thesis unfolding h by simp
  next
    case False
    with lh have "last ?H \<in> set entries \<and> typed (AttributeDefinitions table) (last ?H)
        \<and> KeyType (last ?H) = Some KeyType_HASH"
      by auto
    then show ?thesis
      unfolding h using False by auto
  qed
  have r2: "range (fst ?K) \<noteq> None \<longrightarrow>
      (\<exists>item\<in>set entries. typed (AttributeDefinitions table) item \<and> KeyType item = Some KeyType_RANGE
         \<and> AttributeName item = range (fst ?K))"
  proof (cases "?R = []")
    case True
    then show ?thesis unfolding r by simp
  next
    case False
    with lr have "last ?R \<in> set entries \<and> typed (AttributeDefinitions table) (last ?R)
        \<and> KeyType (last ?R) = Some KeyType_RANGE"
      by auto
    then show ?thesis
      unfolding r using False by auto
  qed
  from main_resolve_scansSent [of w] m
  have s: "scansSent
                (trace w @ concat (replicate (length absent) (retry tableName))
                 @ [Sent (DescribeTableCommand \<lparr>TableName = tableName\<rparr>)]
                 @ concat (map (warning (AttributeDefinitions table)) entries))
               = scansSent (trace w)"
    by simp
  from m have mm: "main w = main_loop (fst ?K) ?w'"
    by (simp add: main_def)
  from h1 assms(10) have h0: "hash (fst ?K) \<noteq> None"
    by (rule mp)
  from g m r1 r2 h2 h0 s mm show ?thesis
    by (intro exI [of _ "fst ?K"] conjI)
qed

theorem key_schema_of_typed_entries_witness:
  "(\<exists>keySchema. main_resolve compositeWorld =
        (Returned keySchema,
         compositeWorld\<lparr>describes := [],
           trace := [Sent (DescribeTableCommand \<lparr>TableName = ''ddb-l-ase2-ms-notifications''\<rparr>)]\<rparr>)
       \<and> hash keySchema \<noteq> None \<and> range keySchema \<noteq> None)
   \<and> (\<exists>keySchema. main_resolve untypedSortWorld =
        (Returned keySchema,
         untypedSortWorld\<lparr>describes := [],
           trace := [Sent (DescribeTableCommand \<lparr>TableName = ''ddb-l-ase2-ms-notifications''\<rparr>),
                     Warn [Str (''Could not find attribute definition or type for key ''
                                @ quote @ ''ts'' @ quote)]]\<rparr>)
       \<and> hash keySchema \<noteq> None \<and> range keySchema = None)
   \<and> (\<exists>keySchema. main_resolve lateTableWorld =
        (Returned keySchema,
         lateTableWorld\<lparr>clock := 2010000, describes := [],
           trace := retry ''ddb-l-ase2-ms-notifications'' @ retry ''ddb-l-ase2-ms-notifications''
                    @ [Sent (DescribeTableCommand \<lparr>TableName = ''ddb-l-ase2-ms-notifications''\<rparr>)]\<rparr>)
       \<and> hash keySchema \<noteq> None \<and> range keySchema = None)"
proof -
  let ?tn = "''ddb-l-ase2-ms-notifications''"
  let ?id = "\<lparr>AttributeName = Some ''id'', KeyType = Some ''HASH''\<rparr>"
  let ?ts = "\<lparr>AttributeName = Some ''ts'', KeyType = Some ''RANGE''\<rparr>"
  let ?idS = "\<lparr>AttributeName = Some ''id'', AttributeType = Some ''S''\<rparr>"
  let ?tsN = "\<lparr>AttributeName = Some ''ts'', AttributeType = Some ''N''\<rparr>"
  have ne: "?tn \<noteq> []" by simp
  have none: "\<forall>f\<in>set ([] :: (DescribeTableCommandInput \<Rightarrow> error + DescribeTableCommandOutput) list).
      f \<lparr>TableName = ?tn\<rparr> = Inl ResourceNotFoundException"
    and two: "\<forall>f\<in>set [notFound, notFound]. f \<lparr>TableName = ?tn\<rparr> = Inl ResourceNotFoundException"
    by (simp_all add: notFound_def)
  have c1: "env compositeWorld ''TABLE_NAME'' = Some ?tn"
    and c3: "describes compositeWorld = [] @ (\<lambda>input. Inr compositeTable) # []"
    and c5: "(\<lambda>input. Inr compositeTable) \<lparr>TableName = ?tn\<rparr>
              = (Inr compositeTable :: error + DescribeTableCommandOutput)"
    and c6: "httpStatusCode compositeTable = Some 200"
    and c7: "Table compositeTable = Some \<lparr>KeySchema = Some [?id, ?ts], AttributeDefinitions = Some [?idS, ?tsN]\<rparr>"
    and c8: "KeySchema \<lparr>KeySchema = Some [?id, ?ts], AttributeDefinitions = Some [?idS, ?tsN]\<rparr> = Some [?id, ?ts]"
    and c9: "\<forall>item\<in>set [?id, ?ts]. AttributeName item \<noteq> None"
    and c10: "\<exists>item\<in>set [?id, ?ts].
        typed (AttributeDefinitions \<lparr>KeySchema = Some [?id, ?ts], AttributeDefinitions = Some [?idS, ?tsN]\<rparr>) item
        \<and> KeyType item = Some KeyType_HASH"
    and cr: "\<exists>item\<in>set [?id, ?ts].
        typed (AttributeDefinitions \<lparr>KeySchema = Some [?id, ?ts], AttributeDefinitions = Some [?idS, ?tsN]\<rparr>) item
        \<and> KeyType item = Some KeyType_RANGE"
    and cw: "concat (map (warning (AttributeDefinitions
        \<lparr>KeySchema = Some [?id, ?ts], AttributeDefinitions = Some [?idS, ?tsN]\<rparr>)) [?id, ?ts]) = []"
    by (simp_all add: compositeWorld_def compositeTable_def exampleEnv_def typed_def warning_def
          KeyType_HASH_def KeyType_RANGE_def)
  have u1: "env untypedSortWorld ''TABLE_NAME'' = Some ?tn"
    and u3: "describes untypedSortWorld = [] @ (\<lambda>input. Inr untypedSortTable) # []"
    and u5: "(\<lambda>input. Inr untypedSortTable) \<lparr>TableName = ?tn\<rparr>
              = (Inr untypedSortTable :: error + DescribeTableCommandOutput)"
    and u6: "httpStatusCode untypedSortTable = Some 200"
    and u7: "Table untypedSortTable = Some \<lparr>KeySchema = Some [?id, ?ts], AttributeDefinitions = Some [?idS]\<rparr>"
    and u8: "KeySchema \<lparr>KeySchema = Some [?id, ?ts], AttributeDefinitions = Some [?idS]\<rparr> = Some [?id, ?ts]"
    and u10: "\<exists>item\<in>set [?id, ?ts].
        typed (AttributeDefinitions \<lparr>KeySchema = Some [?id, ?ts], AttributeDefinitions = Some [?idS]\<rparr>) item
        \<and> KeyType item = Some KeyType_HASH"
    and ur: "\<not> (\<exists>item\<in>set [?id, ?ts].
        typed (AttributeDefinitions \<lparr>KeySchema = Some [?id, ?ts], AttributeDefinitions = Some [?idS]\<rparr>) item
        \<and> KeyType item = Some KeyType_RANGE)"
    and uw: "concat (map (warning (AttributeDefinitions
        \<lparr>KeySchema = Some [?id, ?ts], AttributeDefinitions = Some [?idS]\<rparr>)) [?id, ?ts])
        = [Warn [Str (''Could not find attribute definition or type for key '' @ quote @ ''ts'' @ quote)]]"
    by (simp_all add: untypedSortWorld_def untypedSortTable_def exampleEnv_def typed_def warning_def
          KeyType_HASH_def KeyType_RANGE_def interpolate_def)
  have l1: "env lateTableWorld ''TABLE_NAME'' = Some ?tn"
    and l3: "describes lateTableWorld = [notFound, notFound] @ (\<lambda>input. Inr simpleTable) # []"
    and l5: "(\<lambda>input. Inr simpleTable) \<lparr>TableName = ?tn\<rparr>
              = (Inr simpleTable :: error + DescribeTableCommandOutput)"
    and l6: "httpStatusCode simpleTable = Some 200"
    and l7: "Table simpleTable = Some \<lparr>KeySchema = Some [?id], AttributeDefinitions = Some [?idS]\<rparr>"
    and l8: "KeySchema \<lparr>KeySchema = Some [?id], AttributeDefinitions = Some [?idS]\<rparr> = Some [?id]"
    and l9: "\<forall>item\<in>set [?id]. AttributeName item \<noteq> None"
    and l10: "\<exists>item\<in>set [?id].
        typed (AttributeDefinitions \<lparr>KeySchema = Some [?id], AttributeDefinitions = Some [?idS]\<rparr>) item
        \<and> KeyType item = Some KeyType_HASH"
    and lr: "\<not> (\<exists>item\<in>set [?id].
        typed (AttributeDefinitions \<lparr>KeySchema = Some [?id], AttributeDefinitions = Some [?idS]\<rparr>) item
        \<and> KeyType item = Some KeyType_RANGE)"
    and lw: "concat (map (warning (AttributeDefinitions
        \<lparr>KeySchema = Some [?id], AttributeDefinitions = Some [?idS]\<rparr>)) [?id]) = []"
    by (simp_all add: lateTableWorld_def simpleTable_def exampleEnv_def typed_def warning_def
          KeyType_HASH_def KeyType_RANGE_def)
  from key_schema_of_typed_entries [OF c1 ne c3 none c5 c6 c7 c8 c9 c10]
  obtain ck where "main_resolve compositeWorld =
        (Returned ck,
         compositeWorld\<lparr>clock := clock compositeWorld
              + 5000 * int (length ([] :: (DescribeTableCommandInput \<Rightarrow> error + DescribeTableCommandOutput) list)),
           describes := [],
           trace := trace compositeWorld
             @ concat (replicate (length ([] :: (DescribeTableCommandInput \<Rightarrow> error + DescribeTableCommandOutput) list)) (retry ?tn))
             @ [Sent (DescribeTableCommand \<lparr>TableName = ?tn\<rparr>)]
             @ concat (map (warning (AttributeDefinitions
                 \<lparr>KeySchema = Some [?id, ?ts], AttributeDefinitions = Some [?idS, ?tsN]\<rparr>)) [?id, ?ts])\<rparr>)"
    and "range ck \<noteq> None \<longleftrightarrow> (\<exists>item\<in>set [?id, ?ts].
        typed (AttributeDefinitions \<lparr>KeySchema = Some [?id, ?ts], AttributeDefinitions = Some [?idS, ?tsN]\<rparr>) item
        \<and> KeyType item = Some KeyType_RANGE)"
    and ch: "hash ck \<noteq> None"
    by blast
  note cm = this(1) and cri = this(2)
  from cm have cm': "main_resolve compositeWorld =
        (Returned ck,
         compositeWorld\<lparr>describes := [],
           trace := [Sent (DescribeTableCommand \<lparr>TableName = ?tn\<rparr>)]\<rparr>)"
    unfolding cw by (simp add: compositeWorld_def)
  from cri cr have "range ck \<noteq> None" by (rule iffD2)
  with cm' ch have composite: "\<exists>keySchema. main_resolve compositeWorld =
        (Returned keySchema,
         compositeWorld\<lparr>describes := [],
           trace := [Sent (DescribeTableCommand \<lparr>TableName = ?tn\<rparr>)]\<rparr>)
       \<and> hash keySchema \<noteq> None \<and> range keySchema \<noteq> None"
    by (intro exI [of _ ck] conjI)
  from key_schema_of_typed_entries [OF u1 ne u3 none u5 u6 u7 u8 c9 u10]
  obtain uk where "main_resolve untypedSortWorld =
        (Returned uk,
         untypedSortWorld\<lparr>clock := clock untypedSortWorld
              + 5000 * int (length ([] :: (DescribeTableCommandInput \<Rightarrow> error + DescribeTableCommandOutput) list)),
           describes := [],
           trace := trace untypedSortWorld
             @ concat (replicate (length ([] :: (DescribeTableCommandInput \<Rightarrow> error + DescribeTableCommandOutput) list)) (retry ?tn))
             @ [Sent (DescribeTableCommand \<lparr>TableName = ?tn\<rparr>)]
             @ concat (map (warning (AttributeDefinitions
                 \<lparr>KeySchema = Some [?id, ?ts], AttributeDefinitions = Some [?idS]\<rparr>)) [?id, ?ts])\<rparr>)"
    and "range uk \<noteq> None \<longleftrightarrow> (\<exists>item\<in>set [?id, ?ts].
        typed (AttributeDefinitions \<lparr>KeySchema = Some [?id, ?ts], AttributeDefinitions = Some [?idS]\<rparr>) item
        \<and> KeyType item = Some KeyType_RANGE)"
    and uh: "hash uk \<noteq> None"
    by blast
  note um = this(1) and uri = this(2)
  from um have um': "main_resolve untypedSortWorld =
        (Returned uk,
         untypedSortWorld\<lparr>describes := [],
           trace := [Sent (DescribeTableCommand \<lparr>TableName = ?tn\<rparr>),
                     Warn [Str (''Could not find attribute definition or type for key ''
                                @ quote @ ''ts'' @ quote)]]\<rparr>)"
    unfolding uw by (simp add: untypedSortWorld_def)
  have "\<not> range uk \<noteq> None" unfolding uri by (rule ur)
  then have "range uk = None" by (rule notnotD)
  with um' uh have untyped: "\<exists>keySchema. main_resolve untypedSortWorld =
        (Returned keySchema,
         untypedSortWorld\<lparr>describes := [],
           trace := [Sent (DescribeTableCommand \<lparr>TableName = ?tn\<rparr>),
                     Warn [Str (''Could not find attribute definition or type for key ''
                                @ quote @ ''ts'' @ quote)]]\<rparr>)
       \<and> hash keySchema \<noteq> None \<and> range keySchema = None"
    by (intro exI [of _ uk] conjI)
  from key_schema_of_typed_entries [OF l1 ne l3 two l5 l6 l7 l8 l9 l10]
  obtain lk where "main_resolve lateTableWorld =
        (Returned lk,
         lateTableWorld\<lparr>clock := clock lateTableWorld + 5000 * int (length [notFound, notFound]),
           describes := [],
           trace := trace lateTableWorld
             @ concat (replicate (length [notFound, notFound]) (retry ?tn))
             @ [Sent (DescribeTableCommand \<lparr>TableName = ?tn\<rparr>)]
             @ concat (map (warning (AttributeDefinitions
                 \<lparr>KeySchema = Some [?id], AttributeDefinitions = Some [?idS]\<rparr>)) [?id])\<rparr>)"
    and "range lk \<noteq> None \<longleftrightarrow> (\<exists>item\<in>set [?id].
        typed (AttributeDefinitions \<lparr>KeySchema = Some [?id], AttributeDefinitions = Some [?idS]\<rparr>) item
        \<and> KeyType item = Some KeyType_RANGE)"
    and lh: "hash lk \<noteq> None"
    by blast
  note lm = this(1) and lri = this(2)
  from lm have lm': "main_resolve lateTableWorld =
        (Returned lk,
         lateTableWorld\<lparr>clock := 2010000, describes := [],
           trace := retry ?tn @ retry ?tn @ [Sent (DescribeTableCommand \<lparr>TableName = ?tn\<rparr>)]\<rparr>)"
    unfolding lw by (simp add: lateTableWorld_def numeral_2_eq_2)
  have "\<not> range lk \<noteq> None" unfolding lri by (rule lr)
  then have "range lk = None" by (rule notnotD)
  with lm' lh have late: "\<exists>keySchema. main_resolve lateTableWorld =
        (Returned keySchema,
         lateTableWorld\<lparr>clock := 2010000, describes := [],
           trace := retry ?tn @ retry ?tn @ [Sent (DescribeTableCommand \<lparr>TableName = ?tn\<rparr>)]\<rparr>)
       \<and> hash keySchema \<noteq> None \<and> range keySchema = None"
    by (intro exI [of _ lk] conjI)
  from composite untyped late show ?thesis
    by (intro conjI)
qed

end
